theory Spec2Isabelle
  imports Main "HOL-Library.Word"
begin

section \<open>Data model of \<open>src/agent.ts\<close>\<close>

text \<open>
  The class \<open>SignerAgent\<close> routes calls, queries and read-state requests either through
  a transport that signs with a delegated identity, or through an external signer.
  Everything outside the class (transport, signer, storage contents, certificate
  checking, text codecs) is a capability: its answers are parameters of the model.
\<close>

type_synonym bytes = "8 word list"

text \<open>A \<open>Principal\<close> of \<open>@dfinity/principal\<close> is its byte array \<open>_arr\<close>.\<close>

datatype principal = Principal (arr: bytes)

text \<open>The result of \<open>Principal.compareTo\<close>: the strings \<open>"lt"\<close>, \<open>"eq"\<close>, \<open>"gt"\<close>.\<close>

datatype compare_result = Lt | Eq | Gt

text \<open>
  \<open>Principal.compareTo\<close>: the first differing byte among the common prefix decides,
  then the lengths.
\<close>

fun compareTo_arr :: "bytes \<Rightarrow> bytes \<Rightarrow> compare_result" where
  "compareTo_arr (x # xs) (y # ys) =
     (if x < y then Lt else if x > y then Gt else compareTo_arr xs ys)"
| "compareTo_arr [] (y # ys) = Lt"
| "compareTo_arr (x # xs) [] = Gt"
| "compareTo_arr [] [] = Eq"

definition compareTo :: "principal \<Rightarrow> principal \<Rightarrow> compare_result" where
  "compareTo this other = compareTo_arr (arr this) (arr other)"

text \<open>
  \<open>compare\<close> of \<open>@dfinity/agent\<close> on two buffers: the difference of the byte lengths
  when they differ, else the difference of the first differing bytes, else 0.
\<close>

fun compare_loop :: "bytes \<Rightarrow> bytes \<Rightarrow> int" where
  "compare_loop (x # xs) (y # ys) =
     (if x \<noteq> y then uint x - uint y else compare_loop xs ys)"
| "compare_loop _ _ = 0"

definition compare :: "bytes \<Rightarrow> bytes \<Rightarrow> int" where
  "compare b1 b2 =
     (if length b1 \<noteq> length b2 then int (length b1) - int (length b2)
      else compare_loop b1 b2)"

text \<open>The single error class of the module, and any other exception a capability throws.\<close>

datatype error = SignerAgentError string | OtherError string

subsection \<open>Configuration\<close>

datatype key_type = ECDSA | Ed25519

text \<open>Capabilities handed over in the options are opaque: they are named by a number.\<close>

datatype transport_ref = HttpAgent_new | HttpAgent_given nat
datatype storage_ref = IdbStorage_new | Storage_given nat

record delegation_options =
  identity :: "nat option"
  targets :: "principal list option"
  keyType :: "key_type option"

record SignerAgentOptions =
  agent :: "transport_ref option"
  blsVerify :: "nat option"
  storage :: "storage_ref option"
  delegation :: "delegation_options option"

subsection \<open>Values exchanged with the capabilities\<close>

text \<open>A stored value is a string or a \<open>CryptoKeyPair\<close> handle; \<open>undefined\<close> is \<open>None\<close>.\<close>

datatype storage_value = StringValue string | KeyPairValue nat

datatype delegation_entry =
  Delegation (pubkey: bytes) (expiration: nat) (delegation_targets: "principal list option")

datatype signed_delegation =
  SignedDelegation (delegation_of: delegation_entry) (signature: bytes)

record DelegationChain =
  delegations :: "signed_delegation list"
  publicKey :: bytes

text \<open>
  The two generated kinds of base identity, and the identity an embedder may configure
  (\<open>options.delegation.identity\<close>). Key material is opaque: a number names it.
\<close>

datatype key_identity = Ed25519KeyIdentity nat | ECDSAKeyIdentity nat

datatype base_identity = ConfiguredIdentity nat | KeyIdentity key_identity

text \<open>\<open>DelegationIdentity.fromDelegation(baseIdentity, delegationChain)\<close>.\<close>

datatype DelegationIdentity = fromDelegation base_identity DelegationChain

text \<open>The \<open>canisterId\<close> argument is \<open>Principal | string\<close>.\<close>

datatype canister_ref = OfPrincipal principal | OfText string

record call_options =
  methodName :: string
  call_arg :: bytes
  effectiveCanisterId :: "canister_ref option"

record CallRequest =
  request_type :: string
  canister_id :: principal
  method_name :: string
  arg :: bytes
  sender :: principal
  ingress_expiry :: nat

record http_details =
  ok :: bool
  status :: nat
  statusText :: string
  body :: "bytes option"
  headers :: "(string \<times> string) list"

record SubmitResponse =
  requestId :: bytes
  response :: http_details

record ReadStateResponse =
  certificate :: bytes

record ReadStateOptions =
  paths :: "bytes list list"

text \<open>
  \<open>ApiQueryResponse\<close>. The reply payload is typed \<open>ArrayBuffer\<close>; \<open>query\<close> fills it with
  the result of a lookup under a non-null assertion, so at run time it may be
  \<open>undefined\<close>: the field is an option.
\<close>

datatype ApiQueryResponse =
  Replied (reply_arg: "bytes option") (httpDetails: http_details)
| Rejected (reject_code: nat) (reject_message: string) (httpDetails: http_details)

text \<open>A segment of a certificate path is a buffer or a string.\<close>

datatype segment = Buf bytes | Str string

text \<open>A verified \<open>Certificate\<close> is used through \<open>lookup\<close> only.\<close>

record Certificate =
  lookup :: "segment list \<Rightarrow> bytes option"

subsection \<open>Capabilities\<close>

text \<open>
  \<open>options.signer\<close>: \<open>callCanister({canisterId, sender, method, arg})\<close> answers
  \<open>{contentMap, certificate}\<close>; \<open>getDelegation({principal, publicKey, targets})\<close>
  answers a chain. A rejected promise is \<open>Inl\<close>.
\<close>

record Signer =
  callCanister :: "principal \<Rightarrow> principal \<Rightarrow> string \<Rightarrow> bytes \<Rightarrow> error + (bytes \<times> bytes)"
  getDelegation :: "principal \<Rightarrow> bytes \<Rightarrow> principal list option \<Rightarrow> error + DelegationChain"

text \<open>The \<open>HttpAgent\<close> behind \<open>this.agent\<close>.\<close>

record HttpAgent =
  agent_call :: "principal \<Rightarrow> call_options \<Rightarrow> DelegationIdentity \<Rightarrow> error + SubmitResponse"
  agent_query :: "canister_ref \<Rightarrow> call_options \<Rightarrow> DelegationIdentity \<Rightarrow> error + ApiQueryResponse"
  agent_readState ::
    "canister_ref \<Rightarrow> ReadStateOptions \<Rightarrow> DelegationIdentity option \<Rightarrow> error + ReadStateResponse"
  agent_createReadStateRequest :: "ReadStateOptions \<Rightarrow> DelegationIdentity option \<Rightarrow> error + nat"
  rootKey :: "bytes option"

text \<open>
  The environment of one operation. \<open>signer\<close> and \<open>getPrincipal\<close> are fields of the
  options in the source; they are capabilities, so they live here, and \<open>getPrincipal\<close>
  answers the same within one operation. The rest are functions of the imported
  libraries and of \<open>./utils/cbor\<close>:
  \<open>Principal.fromText\<close>, \<open>Principal.toText\<close>, \<open>Principal.selfAuthenticating\<close>,
  \<open>Buffer.from(b).toString("base64")\<close>, \<open>new TextDecoder().decode\<close>,
  \<open>new TextEncoder().encode\<close>, \<open>decode\<close>, \<open>requestIdOf\<close>, \<open>Certificate.create\<close>,
  \<open>DelegationChain.fromJSON\<close>, \<open>JSON.stringify(chain.toJSON())\<close>, \<open>isDelegationValid\<close>
  (which also reads the clock), the key identities' \<open>generate\<close>, \<open>toJSON\<close>,
  \<open>fromJSON\<close>, \<open>getPublicKey().toDer()\<close>, and \<open>getRandomValues\<close>.
\<close>

record env =
  signer :: Signer
  getPrincipal :: "error + principal"
  http :: "transport_ref \<Rightarrow> HttpAgent"
  fromText :: "string \<Rightarrow> error + principal"
  toText :: "principal \<Rightarrow> string"
  selfAuthenticating :: "bytes \<Rightarrow> principal"
  toBase64 :: "bytes \<Rightarrow> string"
  TextDecoder_decode :: "bytes \<Rightarrow> string"
  TextEncoder_encode :: "string \<Rightarrow> bytes"
  decode :: "bytes \<Rightarrow> error + CallRequest"
  requestIdOf :: "CallRequest \<Rightarrow> bytes"
  Certificate_create :: "bytes \<Rightarrow> bytes option \<Rightarrow> principal \<Rightarrow> nat option \<Rightarrow> error + Certificate"
  DelegationChain_fromJSON :: "string \<Rightarrow> error + DelegationChain"
  DelegationChain_toJSON :: "DelegationChain \<Rightarrow> string"
  isDelegationValid :: "DelegationChain \<Rightarrow> principal list option \<Rightarrow> bool"
  Ed25519_generate :: "bytes \<Rightarrow> nat"
  Ed25519_toJSON :: "nat \<Rightarrow> string"
  Ed25519_fromJSON :: "string \<Rightarrow> error + nat"
  ECDSA_generate :: "error + nat"
  toDer :: "base_identity \<Rightarrow> bytes"
  getRandomValues :: "nat \<Rightarrow> bytes"

subsection \<open>State\<close>

text \<open>Every use of a capability is recorded, in order, whether it succeeds or not.\<close>

datatype event =
  Signer_callCanister principal principal string bytes
| Signer_getDelegation principal bytes "principal list option"
| Agent_call transport_ref principal call_options DelegationIdentity
| Agent_query transport_ref canister_ref call_options DelegationIdentity
| Agent_readState transport_ref canister_ref ReadStateOptions "DelegationIdentity option"
| Agent_createReadStateRequest transport_ref ReadStateOptions "DelegationIdentity option"
| Storage_get storage_ref string
| Storage_set storage_ref string storage_value

text \<open>
  The fields of a \<open>SignerAgent\<close> instance (\<open>this.agent\<close> and \<open>this.storage\<close> are
  \<open>this_agent\<close> and \<open>this_storage\<close>), followed by what lies outside it: the contents of
  every storage, and the record of the capability uses so far.
\<close>

record SignerAgent =
  options :: SignerAgentOptions
  this_agent :: transport_ref
  this_storage :: storage_ref
  readStateResponses :: "string \<rightharpoonup> ReadStateResponse"
  delegatedRequestIds :: "string set"
  stores :: "storage_ref \<Rightarrow> string \<rightharpoonup> storage_value"
  trace :: "event list"

text \<open>
  An \<open>async\<close> method: from the state to a result or a thrown error, and the state it
  leaves. A throw does not undo the mutations made before it.
\<close>

type_synonym 'a promise = "SignerAgent \<Rightarrow> (error + 'a) \<times> SignerAgent"

definition resolve :: "'a \<Rightarrow> 'a promise" where
  "resolve a s = (Inr a, s)"

definition throw :: "error \<Rightarrow> 'a promise" where
  "throw e s = (Inl e, s)"

definition await :: "'a promise \<Rightarrow> ('a \<Rightarrow> 'b promise) \<Rightarrow> 'b promise" where
  "await m f s = (case m s of (Inl e, s') \<Rightarrow> (Inl e, s') | (Inr a, s') \<Rightarrow> f a s')"

text \<open>Using a capability: the use is recorded and its answer is the result.\<close>

definition external :: "event \<Rightarrow> error + 'a \<Rightarrow> 'a promise" where
  "external ev r s = (r, s\<lparr>trace := trace s @ [ev]\<rparr>)"

section \<open>The class \<open>SignerAgent\<close>\<close>

text \<open>The constructor; \<open>w\<close> is what the storages hold when the instance is made.\<close>

definition constructor :: "SignerAgentOptions \<Rightarrow> (storage_ref \<Rightarrow> string \<rightharpoonup> storage_value) \<Rightarrow> SignerAgent" where
  "constructor opts w =
     \<lparr>options = opts,
      this_agent = (case agent opts of Some a \<Rightarrow> a | None \<Rightarrow> HttpAgent_new),
      this_storage = IdbStorage_new,
      readStateResponses = Map.empty,
      delegatedRequestIds = {},
      stores = w,
      trace = []\<rparr>"

text \<open>\<open>this.storage.get(key)\<close> and \<open>this.storage.set(key, value)\<close>.\<close>

definition storage_get :: "string \<Rightarrow> storage_value option promise" where
  "storage_get key s =
     external (Storage_get (this_storage s) key) (Inr (stores s (this_storage s) key)) s"

definition storage_set :: "string \<Rightarrow> storage_value \<Rightarrow> unit promise" where
  "storage_set key v s =
     external (Storage_set (this_storage s) key v) (Inr ())
       (s\<lparr>stores := (stores s)(this_storage s := (stores s (this_storage s))(key \<mapsto> v))\<rparr>)"

text \<open>\<open>this.options.delegation?.targets\<close>.\<close>

definition delegation_targets_opt :: "SignerAgentOptions \<Rightarrow> principal list option" where
  "delegation_targets_opt opts =
     (case delegation opts of None \<Rightarrow> None | Some d \<Rightarrow> targets d)"

text \<open>
  \<open>setDelegationChain\<close>. The key is built before the value: with no delegation in the
  chain, \<open>delegations.slice(-1)[0]\<close> is \<open>undefined\<close> and reading \<open>.delegation\<close> of it
  throws a \<open>TypeError\<close>.
\<close>

definition setDelegationChain :: "env \<Rightarrow> DelegationChain \<Rightarrow> unit promise" where
  "setDelegationChain E delegationChain =
     (case delegations delegationChain of
        [] \<Rightarrow> throw (OtherError ''TypeError'')
      | _ # _ \<Rightarrow>
          storage_set
            (''delegation-chain-'' @ toText E (selfAuthenticating E (publicKey delegationChain))
               @ ''-'' @ toBase64 E (pubkey (delegation_of (last (delegations delegationChain)))))
            (StringValue (DelegationChain_toJSON E delegationChain)))"

text \<open>
  \<open>getDelegationChain\<close>. The three cases of \<open>json\<close> are the source's two tests. In
  JavaScript \<open>undefined\<close> and the empty string are falsy, every other string and every
  object is truthy: a key pair is truthy and not a string, so it throws; \<open>undefined\<close> and
  the empty string are \<open>!json\<close>; a non-empty string is parsed (which may throw) and
  checked against the configured scope. \<open>requestDelegationChain\<close> is the body of the
  second \<open>if\<close>.
\<close>

definition requestDelegationChain :: "env \<Rightarrow> principal \<Rightarrow> bytes \<Rightarrow> DelegationChain promise" where
  "requestDelegationChain E principal' publicKey' s =
     await
       (external
          (Signer_getDelegation principal' publicKey' (delegation_targets_opt (options s)))
          (getDelegation (signer E) principal' publicKey' (delegation_targets_opt (options s))))
       (\<lambda>newDelegationChain.
          await (setDelegationChain E newDelegationChain) (\<lambda>_. resolve newDelegationChain))
       s"

definition getDelegationChain :: "env \<Rightarrow> principal \<Rightarrow> bytes \<Rightarrow> DelegationChain promise" where
  "getDelegationChain E principal' publicKey' =
     await
       (storage_get (''delegation-chain-'' @ toText E principal' @ ''-'' @ toBase64 E publicKey'))
       (\<lambda>json s.
          case json of
            Some (KeyPairValue k) \<Rightarrow>
              throw (SignerAgentError ''Invalid delegation chain in storage'') s
          | None \<Rightarrow> requestDelegationChain E principal' publicKey' s
          | Some (StringValue str) \<Rightarrow>
              if str = [] then requestDelegationChain E principal' publicKey' s
              else
                (case DelegationChain_fromJSON E str of
                   Inl e \<Rightarrow> throw e s
                 | Inr chain \<Rightarrow>
                     if \<not> isDelegationValid E chain (delegation_targets_opt (options s))
                     then requestDelegationChain E principal' publicKey' s
                     else resolve chain s))"

text \<open>
  \<open>createDelegationBaseIdentity\<close>, \<open>setDelegationBaseIdentity\<close> and
  \<open>getDelegationBaseIdentity\<close>. In the last, \<open>!value\<close> is \<open>undefined\<close> or the empty string;
  a non-empty string is an Ed25519 identity in JSON, anything else a key pair.
\<close>

definition createDelegationBaseIdentity :: "env \<Rightarrow> key_identity promise" where
  "createDelegationBaseIdentity E s =
     (if (case delegation (options s) of None \<Rightarrow> None | Some d \<Rightarrow> keyType d) = Some Ed25519
      then resolve (Ed25519KeyIdentity (Ed25519_generate E (getRandomValues E 32))) s
      else (case ECDSA_generate E of
              Inl e \<Rightarrow> throw e s
            | Inr k \<Rightarrow> resolve (ECDSAKeyIdentity k) s))"

definition setDelegationBaseIdentity :: "env \<Rightarrow> principal \<Rightarrow> key_identity \<Rightarrow> unit promise" where
  "setDelegationBaseIdentity E sender' identity' =
     storage_set (''delegation-identity-'' @ toText E sender')
       (case identity' of
          Ed25519KeyIdentity k \<Rightarrow> StringValue (Ed25519_toJSON E k)
        | ECDSAKeyIdentity k \<Rightarrow> KeyPairValue k)"

definition getDelegationBaseIdentity :: "env \<Rightarrow> principal \<Rightarrow> base_identity promise" where
  "getDelegationBaseIdentity E sender' s =
     (case (case delegation (options s) of None \<Rightarrow> None | Some d \<Rightarrow> identity d) of
        Some i \<Rightarrow> resolve (ConfiguredIdentity i) s
      | None \<Rightarrow>
          await (storage_get (''delegation-identity-'' @ toText E sender'))
            (\<lambda>value.
               let create =
                 await (createDelegationBaseIdentity E)
                   (\<lambda>identity'.
                      await (setDelegationBaseIdentity E sender' identity')
                        (\<lambda>_. resolve (KeyIdentity identity')))
               in
                 case value of
                   None \<Rightarrow> create
                 | Some (StringValue v) \<Rightarrow>
                     if v = [] then create
                     else
                       (case Ed25519_fromJSON E v of
                          Inl e \<Rightarrow> throw e
                        | Inr k \<Rightarrow> resolve (KeyIdentity (Ed25519KeyIdentity k)))
                 | Some (KeyPairValue k) \<Rightarrow> resolve (KeyIdentity (ECDSAKeyIdentity k)))
            s)"

text \<open>
  \<open>getDelegationIdentity\<close>: \<open>undefined\<close> without a delegation configuration. A chain is an
  object, so the test \<open>if (delegationChain)\<close> holds whenever the chain was obtained.
\<close>

definition getDelegationIdentity :: "env \<Rightarrow> principal \<Rightarrow> DelegationIdentity option promise" where
  "getDelegationIdentity E principal' s =
     (if delegation (options s) = None then resolve None s
      else
        await (getDelegationBaseIdentity E principal')
          (\<lambda>baseIdentity.
             await (getDelegationChain E principal' (toDer E baseIdentity))
               (\<lambda>delegationChain. resolve (Some (fromDelegation baseIdentity delegationChain))))
          s)"

text \<open>The answer of a capability that is not recorded (\<open>getPrincipal\<close>, pure library calls).\<close>

definition settle :: "error + 'a \<Rightarrow> 'a promise" where
  "settle r s = (r, s)"

text \<open>\<open>Principal.from(canisterId)\<close>: a principal as it is, a string through \<open>fromText\<close>.\<close>

definition Principal_from :: "env \<Rightarrow> canister_ref \<Rightarrow> error + principal" where
  "Principal_from E canisterId =
     (case canisterId of OfPrincipal p \<Rightarrow> Inr p | OfText t \<Rightarrow> fromText E t)"

text \<open>
  The test that guards the delegated path in \<open>call\<close> and in \<open>query\<close>:
  \<^verbatim>\<open>this.options.delegation &&
    (!this.options.delegation.targets ||
      this.options.delegation.targets.some((target) => target.compareTo(target) === "eq"))\<close>
  An array is truthy, also when empty. The parameter of the arrow function is named
  \<open>target\<close> too, so inside it both operands of \<open>compareTo\<close> are the element of the
  array; the \<open>target\<close> of the request is not read.
\<close>

definition delegation_condition :: "SignerAgentOptions \<Rightarrow> principal \<Rightarrow> bool" where
  "delegation_condition opts target =
     (case delegation opts of
        None \<Rightarrow> False
      | Some d \<Rightarrow>
          (case targets d of
             None \<Rightarrow> True
           | Some ts \<Rightarrow> list_ex (\<lambda>target. compareTo target target = Eq) ts))"

text \<open>The delegated branch of \<open>call\<close>, once a delegated identity is there.\<close>

definition call_delegated :: "env \<Rightarrow> principal \<Rightarrow> call_options \<Rightarrow> DelegationIdentity \<Rightarrow> SubmitResponse promise" where
  "call_delegated E target opts delegationIdentity s =
     await
       (external (Agent_call (this_agent s) target opts delegationIdentity)
          (agent_call (http E (this_agent s)) target opts delegationIdentity))
       (\<lambda>submitResponse s'.
          (Inr submitResponse,
           s'\<lparr>delegatedRequestIds :=
                insert (toBase64 E (requestId submitResponse)) (delegatedRequestIds s')\<rparr>))
       s"

text \<open>The rest of \<open>call\<close>: through the signer.\<close>

definition call_signer :: "env \<Rightarrow> principal \<Rightarrow> principal \<Rightarrow> call_options \<Rightarrow> SubmitResponse promise" where
  "call_signer E target sender' opts =
     await
       (external (Signer_callCanister target sender' (methodName opts) (call_arg opts))
          (callCanister (signer E) target sender' (methodName opts) (call_arg opts)))
       (\<lambda>(contentMap, certificate').
          await (settle (decode E contentMap))
            (\<lambda>requestBody.
               if ''call'' \<noteq> request_type requestBody \<or>
                  compareTo target (canister_id requestBody) \<noteq> Eq \<or>
                  methodName opts \<noteq> method_name requestBody \<or>
                  compare (call_arg opts) (arg requestBody) \<noteq> 0 \<or>
                  compareTo sender' (sender requestBody) \<noteq> Eq
               then throw (SignerAgentError ''Received invalid content map from signer '')
               else
                 (\<lambda>s.
                    let requestId' = requestIdOf E requestBody in
                    (Inr \<lparr>requestId = requestId',
                          response =
                            \<lparr>ok = True, status = 200,
                             statusText = ''Call has been sent over ICRC-25 JSON-RPC'',
                             body = None, headers = []\<rparr>\<rparr>,
                     s\<lparr>readStateResponses :=
                         (readStateResponses s)
                           (toBase64 E requestId' \<mapsto> \<lparr>certificate = certificate'\<rparr>)\<rparr>))))"

definition call :: "env \<Rightarrow> canister_ref \<Rightarrow> call_options \<Rightarrow> SubmitResponse promise" where
  "call E canisterId opts =
     await (settle (getPrincipal E))
       (\<lambda>sender'.
          await (settle (Principal_from E canisterId))
            (\<lambda>target s.
               if delegation_condition (options s) target then
                 await (getDelegationIdentity E sender')
                   (\<lambda>delegationIdentity.
                      case delegationIdentity of
                        Some di \<Rightarrow> call_delegated E target opts di
                      | None \<Rightarrow> call_signer E target sender' opts)
                   s
               else call_signer E target sender' opts s))"

text \<open>The part of \<open>query\<close> after the delegated branch: the query sent as a call.\<close>

definition query_signer :: "env \<Rightarrow> canister_ref \<Rightarrow> principal \<Rightarrow> call_options \<Rightarrow> ApiQueryResponse promise" where
  "query_signer E canisterId target opts =
     await (call E canisterId opts)
       (\<lambda>submitResponse s.
          let requestKey = toBase64 E (requestId submitResponse) in
          case readStateResponses s requestKey of
            None \<Rightarrow> throw (SignerAgentError ''Read state response could not be found'') s
          | Some readStateResponse \<Rightarrow>
              await
                (settle
                   (Certificate_create E (certificate readStateResponse)
                      (rootKey (http E (this_agent s))) target (blsVerify (options s))))
                (\<lambda>certificate'.
                   let path = [Buf (TextEncoder_encode E ''request_status''),
                               Buf (requestId submitResponse)];
                       maybeBuf = lookup certificate' (path @ [Buf (TextEncoder_encode E ''status'')]);
                       status' = map_option (TextDecoder_decode E) maybeBuf
                   in
                     if status' \<noteq> Some ''replied''
                     then throw (SignerAgentError ''Certificate is missing reply'')
                     else
                       resolve
                         (Replied (lookup certificate' (path @ [Str ''reply'']))
                            \<lparr>ok = True, status = 200,
                             statusText =
                               ''Certificate with reply has been received over ICRC-25 JSON-RPC'',
                             body = None, headers = []\<rparr>))
                (s\<lparr>readStateResponses := (readStateResponses s)(requestKey := None)\<rparr>))"

definition query :: "env \<Rightarrow> canister_ref \<Rightarrow> call_options \<Rightarrow> ApiQueryResponse promise" where
  "query E canisterId opts =
     await (settle (getPrincipal E))
       (\<lambda>sender'.
          await (settle (Principal_from E canisterId))
            (\<lambda>target s.
               if delegation_condition (options s) target then
                 await (getDelegationIdentity E sender')
                   (\<lambda>delegationIdentity.
                      case delegationIdentity of
                        Some di \<Rightarrow>
                          external (Agent_query (this_agent s) canisterId opts di)
                            (agent_query (http E (this_agent s)) canisterId opts di)
                      | None \<Rightarrow> query_signer E canisterId target opts)
                   s
               else query_signer E canisterId target opts s))"

text \<open>\<open>requestIdFromReadStateOptions\<close>; \<open>undefined\<close> is \<open>None\<close>.\<close>

definition requestIdFromReadStateOptions :: "env \<Rightarrow> ReadStateOptions \<Rightarrow> bytes option" where
  "requestIdFromReadStateOptions E opts =
     (if length (paths opts) = 1 \<and> length (paths opts ! 0) = 2 then
        (let path = TextDecoder_decode E (paths opts ! 0 ! 0) in
         if path = ''request_status'' then Some (paths opts ! 0 ! 1) else None)
      else None)"

text \<open>
  \<open>createReadStateRequest\<close>: the request built by the transport, or \<open>undefined\<close> when the
  identifier is not marked as delegated.
\<close>

definition createReadStateRequest :: "env \<Rightarrow> ReadStateOptions \<Rightarrow> nat option promise" where
  "createReadStateRequest E opts s =
     (case requestIdFromReadStateOptions E opts of
        None \<Rightarrow>
          throw
            (SignerAgentError
               ''Invalid read state request, request id could not be found in options'') s
      | Some requestId' \<Rightarrow>
          (let requestKey = toBase64 E requestId' in
           if requestKey \<in> delegatedRequestIds s then
             await (settle (getPrincipal E))
               (\<lambda>sender'.
                  await (getDelegationIdentity E sender')
                    (\<lambda>delegationIdentity s'.
                       external (Agent_createReadStateRequest (this_agent s') opts delegationIdentity)
                         (map_sum id Some
                            (agent_createReadStateRequest (http E (this_agent s')) opts
                               delegationIdentity))
                         s'))
               s
           else resolve None s))"

text \<open>
  \<open>readState\<close>. Its parameters \<open>identity\<close> and \<open>request\<close> are not read by the body and are
  left out.
\<close>

definition readState :: "env \<Rightarrow> canister_ref \<Rightarrow> ReadStateOptions \<Rightarrow> ReadStateResponse promise" where
  "readState E canisterId opts s =
     (case requestIdFromReadStateOptions E opts of
        None \<Rightarrow>
          throw
            (SignerAgentError
               ''Invalid read state request, request id could not be found in options'') s
      | Some requestId' \<Rightarrow>
          (let requestKey = toBase64 E requestId' in
           if requestKey \<in> delegatedRequestIds s then
             await (settle (getPrincipal E))
               (\<lambda>sender'.
                  await (getDelegationIdentity E sender')
                    (\<lambda>delegationIdentity s'.
                       external (Agent_readState (this_agent s') canisterId opts delegationIdentity)
                         (agent_readState (http E (this_agent s')) canisterId opts
                            delegationIdentity)
                         s'))
               (s\<lparr>delegatedRequestIds := delegatedRequestIds s - {requestKey}\<rparr>)
           else
             (case readStateResponses s requestKey of
                None \<Rightarrow>
                  throw
                    (SignerAgentError
                       ''Invalid read state request, response could not be found'') s
              | Some readStateResponse \<Rightarrow>
                  (Inr readStateResponse,
                   s\<lparr>readStateResponses := (readStateResponses s)(requestKey := None)\<rparr>))))"

subsection \<open>Reachable states\<close>

text \<open>
  The states an instance goes through: made by the constructor, then any sequence of the
  four operations, each in an environment of its own, ended by a result or by a throw.
  Between two operations the contents of the storages may change, as they are shared.
\<close>

inductive reachable :: "SignerAgent \<Rightarrow> bool" where
  init: "reachable (constructor opts w)"
| after_call: "reachable s \<Longrightarrow> reachable (snd (call E canisterId copts s))"
| after_query: "reachable s \<Longrightarrow> reachable (snd (query E canisterId copts s))"
| after_readState: "reachable s \<Longrightarrow> reachable (snd (readState E canisterId ropts s))"
| after_createReadStateRequest:
    "reachable s \<Longrightarrow> reachable (snd (createReadStateRequest E ropts s))"
| storage_changed: "reachable s \<Longrightarrow> reachable (s\<lparr>stores := w\<rparr>)"

section \<open>Auxiliary notions\<close>

text \<open>
  Two states of the same instance with the same correlation state: the configuration, the
  two capabilities chosen by the constructor, the certified-response cache and the
  delegated-request markers agree. A method \<open>frames\<close> them when it changes none.
\<close>

definition same_instance :: "SignerAgent \<Rightarrow> SignerAgent \<Rightarrow> bool" where
  "same_instance s s' \<longleftrightarrow>
     options s' = options s \<and> this_agent s' = this_agent s \<and> this_storage s' = this_storage s \<and>
     readStateResponses s' = readStateResponses s \<and> delegatedRequestIds s' = delegatedRequestIds s"

definition frames :: "'a promise \<Rightarrow> bool" where
  "frames m \<longleftrightarrow> (\<forall>s. same_instance s (snd (m s)))"

text \<open>
  With a fixed configuration the routing test of \<open>call\<close> and \<open>query\<close> has one answer for
  the life of the instance. In the first mode every request goes through the transport
  and the certified-response cache stays empty; in the second every request goes through
  the signer and no identifier is marked as delegated.
\<close>

definition delegated_mode :: "SignerAgent \<Rightarrow> bool" where
  "delegated_mode s \<longleftrightarrow>
     delegation_condition (options s) (Principal []) \<and> readStateResponses s = Map.empty"

definition signer_mode :: "SignerAgent \<Rightarrow> bool" where
  "signer_mode s \<longleftrightarrow>
     \<not> delegation_condition (options s) (Principal []) \<and> delegatedRequestIds s = {}"

definition single_path :: "SignerAgent \<Rightarrow> bool" where
  "single_path s \<longleftrightarrow> delegated_mode s \<or> signer_mode s"

text \<open>The requests for a delegation chain made to the signer so far.\<close>

fun is_getDelegation :: "event \<Rightarrow> bool" where
  "is_getDelegation (Signer_getDelegation p k ts) = True"
| "is_getDelegation _ = False"

definition getDelegation_requests :: "SignerAgent \<Rightarrow> event list" where
  "getDelegation_requests s = filter is_getDelegation (trace s)"

text \<open>
  The storage key \<open>getDelegationChain\<close> reads, and the key \<open>setDelegationChain\<close> writes.
\<close>

definition lookup_key :: "env \<Rightarrow> principal \<Rightarrow> bytes \<Rightarrow> string" where
  "lookup_key E principal' publicKey' =
     ''delegation-chain-'' @ toText E principal' @ ''-'' @ toBase64 E publicKey'"

definition derived_key :: "env \<Rightarrow> DelegationChain \<Rightarrow> string" where
  "derived_key E chain =
     ''delegation-chain-'' @ toText E (selfAuthenticating E (publicKey chain))
       @ ''-'' @ toBase64 E (pubkey (delegation_of (last (delegations chain))))"

subsection \<open>A concrete environment\<close>

text \<open>
  A signer, a transport and library functions small enough to run the methods on: the
  signer answers every call with the content map \<open>[10]\<close>, which decodes to a call of
  \<open>greet\<close> on canister \<open>[1]\<close> by \<open>[9]\<close>, and with the certificate \<open>[11]\<close>; every request
  through the signer has the identifier \<open>[42]\<close>, every request through the transport the
  identifier \<open>[77]\<close>; the certificate says \<open>replied\<close> with the reply \<open>[5, 6]\<close>; a chain is
  valid when none of its delegations expires by time 500.
\<close>

definition example_chain :: DelegationChain where
  "example_chain =
     \<lparr>delegations = [SignedDelegation (Delegation [8] 1000 None) [5]], publicKey = [9]\<rparr>"

definition example_old_chain :: DelegationChain where
  "example_old_chain =
     \<lparr>delegations = [SignedDelegation (Delegation [8] 100 None) [5]], publicKey = [6]\<rparr>"

definition example_request :: CallRequest where
  "example_request =
     \<lparr>request_type = ''call'', canister_id = Principal [1], method_name = ''greet'',
      arg = [7], sender = Principal [9], ingress_expiry = 0\<rparr>"

definition example_certificate :: Certificate where
  "example_certificate =
     \<lparr>lookup = (\<lambda>path.
        if path = [Buf [1], Buf [42], Buf [2]] then Some [3]
        else if path = [Buf [1], Buf [42], Str ''reply''] then Some [5, 6]
        else None)\<rparr>"

definition example_certificate_no_reply :: Certificate where
  "example_certificate_no_reply =
     \<lparr>lookup = (\<lambda>path. if path = [Buf [1], Buf [42], Buf [2]] then Some [3] else None)\<rparr>"

definition example_http :: HttpAgent where
  "example_http =
     \<lparr>agent_call = (\<lambda>target opts di.
        Inr \<lparr>requestId = [77],
             response = \<lparr>ok = True, status = 202, statusText = ''Accepted'', body = None,
                         headers = []\<rparr>\<rparr>),
      agent_query = (\<lambda>canisterId opts di.
        Inr (Replied (Some [1]) \<lparr>ok = True, status = 200, statusText = ''OK'', body = None,
                                  headers = []\<rparr>)),
      agent_readState = (\<lambda>canisterId opts di. Inr \<lparr>certificate = [4]\<rparr>),
      agent_createReadStateRequest = (\<lambda>opts di. Inr 0),
      rootKey = Some [0]\<rparr>"

definition example_env :: env where
  "example_env =
     \<lparr>signer =
        \<lparr>callCanister = (\<lambda>canisterId sender' method' arg'. Inr ([10], [11])),
         getDelegation = (\<lambda>principal' publicKey' targets'. Inr example_chain)\<rparr>,
      getPrincipal = Inr (Principal [9]),
      http = (\<lambda>_. example_http),
      fromText = (\<lambda>t. Inl (OtherError ''not a principal'')),
      toText = (\<lambda>p. map (\<lambda>b. if b = 9 then CHR ''j'' else CHR ''a'') (arr p)),
      selfAuthenticating = Principal,
      toBase64 = map (\<lambda>b. if b = 42 then CHR ''K'' else if b = 77 then CHR ''T'' else CHR ''A''),
      TextDecoder_decode = (\<lambda>b.
        if b = [1] then ''request_status'' else if b = [2] then ''status''
        else if b = [3] then ''replied'' else []),
      TextEncoder_encode = (\<lambda>t.
        if t = ''request_status'' then [1] else if t = ''status'' then [2]
        else if t = ''replied'' then [3] else []),
      decode = (\<lambda>contentMap. if contentMap = [10] then Inr example_request
                             else Inl (OtherError ''cbor'')),
      requestIdOf = (\<lambda>requestBody. [42]),
      Certificate_create = (\<lambda>cert rootKey' canisterId blsVerify'. Inr example_certificate),
      DelegationChain_fromJSON = (\<lambda>json.
        if json = ''chain'' then Inr example_chain
        else if json = ''old chain'' then Inr example_old_chain
        else Inl (OtherError ''json'')),
      DelegationChain_toJSON = (\<lambda>chain. ''chain''),
      isDelegationValid = (\<lambda>chain scope.
        list_all (\<lambda>d. 500 < expiration (delegation_of d)) (delegations chain)),
      Ed25519_generate = (\<lambda>seed. 0),
      Ed25519_toJSON = (\<lambda>k. ''key''),
      Ed25519_fromJSON = (\<lambda>json. Inr 0),
      ECDSA_generate = Inr 0,
      toDer = (\<lambda>baseIdentity. [8]),
      getRandomValues = (\<lambda>n. replicate n 0)\<rparr>"

definition example_options :: SignerAgentOptions where
  "example_options = \<lparr>agent = None, blsVerify = None, storage = None, delegation = None\<rparr>"

definition example_call :: call_options where
  "example_call = \<lparr>methodName = ''greet'', call_arg = [7], effectiveCanisterId = None\<rparr>"

definition example_state :: SignerAgent where
  "example_state = constructor example_options (\<lambda>_. Map.empty)"

text \<open>The same environment with a certificate that says \<open>replied\<close> and holds no reply.\<close>

definition example_env_no_reply :: env where
  "example_env_no_reply =
     example_env\<lparr>Certificate_create :=
       (\<lambda>cert rootKey' canisterId blsVerify'. Inr example_certificate_no_reply)\<rparr>"

text \<open>
  A configuration with delegation restricted to the canister \<open>[1]\<close> and a storage of the
  embedder's; the instance made from it; and that instance after one call to \<open>[1]\<close>.
\<close>

definition example_delegation_options :: SignerAgentOptions where
  "example_delegation_options =
     \<lparr>agent = None, blsVerify = None, storage = Some (Storage_given 1),
      delegation = Some \<lparr>identity = None, targets = Some [Principal [1]], keyType = None\<rparr>\<rparr>"

definition example_delegation_state :: SignerAgent where
  "example_delegation_state = constructor example_delegation_options (\<lambda>_. Map.empty)"

definition example_marked_state :: SignerAgent where
  "example_marked_state =
     snd (call example_env (OfPrincipal (Principal [1])) example_call example_delegation_state)"

definition example_read :: ReadStateOptions where
  "example_read = \<lparr>paths = [[[1], [77]]]\<rparr>"

text \<open>
  Two instances with something in the storage already: a key pair under the key of a
  delegation chain, and a chain that expired at time 100 under the key for the principal
  \<open>[5]\<close>.
\<close>

definition example_keypair_state :: SignerAgent where
  "example_keypair_state =
     example_delegation_state\<lparr>stores := (\<lambda>_. [''delegation-chain-j-A'' \<mapsto> KeyPairValue 3])\<rparr>"

definition example_stale_state :: SignerAgent where
  "example_stale_state =
     example_delegation_state
       \<lparr>stores := (\<lambda>_. [''delegation-chain-a-A'' \<mapsto> StringValue ''old chain''])\<rparr>"

section \<open>Properties\<close>

subsection \<open>Comparisons and the routing test\<close>

lemmas example_defs = example_env_def example_chain_def example_old_chain_def example_request_def
  example_certificate_def example_http_def example_options_def example_call_def example_state_def
  constructor_def


lemma compareTo_arr_eq_iff: "compareTo_arr a b = Eq \<longleftrightarrow> a = b"
  by (induction a b rule: compareTo_arr.induct) auto

lemma compareTo_eq_iff: "compareTo a b = Eq \<longleftrightarrow> a = b"
  by (cases a; cases b) (simp add: compareTo_def compareTo_arr_eq_iff)

lemma compare_loop_eq_0_iff: "length a = length b \<Longrightarrow> compare_loop a b = 0 \<longleftrightarrow> a = b"
  by (induction a b rule: compare_loop.induct) (auto simp flip: word_uint_eq_iff)

lemma compare_eq_0_iff: "compare a b = 0 \<longleftrightarrow> a = b"
  by (auto simp: compare_def compare_loop_eq_0_iff)

lemma delegation_condition_iff:
  "delegation_condition opts target \<longleftrightarrow>
     (\<exists>d. delegation opts = Some d \<and> targets d \<noteq> Some [])"
  by (auto simp: delegation_condition_def list_ex_iff compareTo_eq_iff ex_in_conv split: option.splits)

lemma same_instance_refl: "same_instance s s"
  by (simp add: same_instance_def)
lemma same_instance_trans: "same_instance s s' \<Longrightarrow> same_instance s' s'' \<Longrightarrow> same_instance s s''"
  by (simp add: same_instance_def)

lemma frames_resolve: "frames (resolve a)"
  by (simp add: frames_def resolve_def same_instance_def)
lemma frames_throw: "frames (throw a)"
  by (simp add: frames_def throw_def same_instance_def)
lemma frames_settle: "frames (settle a)"
  by (simp add: frames_def settle_def same_instance_def)
lemma frames_external: "frames (external ev a)"
  by (simp add: frames_def external_def same_instance_def)
lemma framesI: "(\<And>s. same_instance s (snd (m s))) \<Longrightarrow> frames m"
  by (simp add: frames_def)
lemma framesD: "frames m \<Longrightarrow> same_instance s (snd (m s))"
  by (simp add: frames_def)

lemma frames_await:
  assumes "frames m" and "\<And>a. frames (f a)"
  shows "frames (await m f)"
proof (rule framesI)
  fix s
  obtain r s' where ms: "m s = (r, s')" by (cases "m s")
  have 1: "same_instance s s'" using framesD [OF assms(1), of s] ms by simp
  show "same_instance s (snd (await m f s))"
  proof (cases r)
    case (Inl e)
    then show ?thesis using ms 1 by (simp add: await_def)
  next
    case (Inr a)
    have "same_instance s' (snd (f a s'))" using assms(2) by (rule framesD)
    then show ?thesis using ms 1 Inr by (auto simp: await_def intro: same_instance_trans)
  qed
qed

lemma frames_storage_get: "frames (storage_get k)"
  by (simp add: frames_def storage_get_def external_def same_instance_def)
lemma frames_storage_set: "frames (storage_set k v)"
  by (simp add: frames_def storage_set_def external_def same_instance_def)

lemma frames_setDelegationChain: "frames (setDelegationChain E c)"
  by (simp add: setDelegationChain_def frames_throw frames_storage_set split: list.splits)

lemma frames_requestDelegationChain: "frames (requestDelegationChain E p k)"
proof (rule framesI)
  fix s :: SignerAgent
  have "frames (await
       (external
          (Signer_getDelegation p k (delegation_targets_opt (options s)))
          (getDelegation (signer E) p k (delegation_targets_opt (options s))))
       (\<lambda>newDelegationChain.
          await (setDelegationChain E newDelegationChain) (\<lambda>_. resolve newDelegationChain)))"
    by (intro frames_await frames_external frames_setDelegationChain frames_resolve)
  then show "same_instance s (snd (requestDelegationChain E p k s))"
    unfolding requestDelegationChain_def by (rule framesD)
qed

lemma frames_getDelegationChain: "frames (getDelegationChain E p k)"
  unfolding getDelegationChain_def
proof (rule frames_await [OF frames_storage_get])
  fix json
  show "frames (\<lambda>s. case json of
            Some (KeyPairValue k') \<Rightarrow>
              throw (SignerAgentError ''Invalid delegation chain in storage'') s
          | None \<Rightarrow> requestDelegationChain E p k s
          | Some (StringValue str) \<Rightarrow>
              if str = [] then requestDelegationChain E p k s
              else
                (case DelegationChain_fromJSON E str of
                   Inl e \<Rightarrow> throw e s
                 | Inr chain \<Rightarrow>
                     if \<not> isDelegationValid E chain (delegation_targets_opt (options s))
                     then requestDelegationChain E p k s
                     else resolve chain s))"
    by (rule framesI)
      (auto split: option.splits storage_value.splits sum.splits
        intro: framesD frames_throw frames_resolve frames_requestDelegationChain)
qed

lemma frames_createDelegationBaseIdentity: "frames (createDelegationBaseIdentity E)"
  by (rule framesI)
    (auto simp: createDelegationBaseIdentity_def split: sum.splits
      intro: framesD frames_throw frames_resolve)

lemma frames_setDelegationBaseIdentity: "frames (setDelegationBaseIdentity E p i)"
  by (simp add: setDelegationBaseIdentity_def frames_storage_set)

lemma frames_getDelegationBaseIdentity: "frames (getDelegationBaseIdentity E p)"
proof (rule framesI)
  fix s :: SignerAgent
  have c: "frames (await (createDelegationBaseIdentity E)
                   (\<lambda>identity'.
                      await (setDelegationBaseIdentity E p identity')
                        (\<lambda>_. resolve (KeyIdentity identity'))))"
    by (intro frames_await frames_createDelegationBaseIdentity frames_setDelegationBaseIdentity
        frames_resolve)
  have "frames (await (storage_get (''delegation-identity-'' @ toText E p))
            (\<lambda>value.
               let create =
                 await (createDelegationBaseIdentity E)
                   (\<lambda>identity'.
                      await (setDelegationBaseIdentity E p identity')
                        (\<lambda>_. resolve (KeyIdentity identity')))
               in
                 case value of
                   None \<Rightarrow> create
                 | Some (StringValue v) \<Rightarrow>
                     if v = [] then create
                     else
                       (case Ed25519_fromJSON E v of
                          Inl e \<Rightarrow> throw e
                        | Inr k \<Rightarrow> resolve (KeyIdentity (Ed25519KeyIdentity k)))
                 | Some (KeyPairValue k) \<Rightarrow> resolve (KeyIdentity (ECDSAKeyIdentity k))))"
    by (rule frames_await [OF frames_storage_get])
      (auto simp: Let_def c frames_throw frames_resolve
        split: option.splits storage_value.splits sum.splits)
  then show "same_instance s (snd (getDelegationBaseIdentity E p s))"
    unfolding getDelegationBaseIdentity_def
    by (auto split: option.splits intro: framesD frames_resolve)
qed

lemma frames_getDelegationIdentity: "frames (getDelegationIdentity E p)"
proof (rule framesI)
  fix s :: SignerAgent
  have "frames (await (getDelegationBaseIdentity E p)
          (\<lambda>baseIdentity.
             await (getDelegationChain E p (toDer E baseIdentity))
               (\<lambda>delegationChain. resolve (Some (fromDelegation baseIdentity delegationChain)))))"
    by (intro frames_await frames_getDelegationBaseIdentity frames_getDelegationChain frames_resolve)
  then show "same_instance s (snd (getDelegationIdentity E p s))"
    unfolding getDelegationIdentity_def
    by (auto intro: framesD frames_resolve)
qed

lemmas example_state_defs = example_delegation_state_def example_delegation_options_def

lemmas promise_defs = await_def resolve_def throw_def settle_def external_def

lemmas run_defs = call_def call_delegated_def promise_defs Principal_from_def
  delegation_condition_def compareTo_def getDelegationIdentity_def
  getDelegationBaseIdentity_def getDelegationChain_def requestDelegationChain_def
  setDelegationChain_def createDelegationBaseIdentity_def setDelegationBaseIdentity_def
  storage_get_def storage_set_def delegation_targets_opt_def Let_def

subsection \<open>What each method changes\<close>

lemma delegation_condition_target:
  "delegation_condition opts target = delegation_condition opts target'"
  by (simp add: delegation_condition_def)

lemma getDelegationIdentity_Some:
  assumes "delegation (options s) \<noteq> None"
    and "getDelegationIdentity E p s = (Inr r, s')"
  shows "r \<noteq> None"
  using assms
  by (auto simp: getDelegationIdentity_def await_def resolve_def
      split: prod.splits sum.splits)

lemma getDelegationIdentity_same:
  "getDelegationIdentity E p s = (r, s') \<Longrightarrow> same_instance s s'"
  using framesD [OF frames_getDelegationIdentity, of s E p] by simp

lemma delegation_condition_configured:
  "delegation_condition opts target \<Longrightarrow> delegation opts \<noteq> None"
  by (auto simp: delegation_condition_def split: option.splits)

lemma call_delegated_snd:
  "options (snd (call_delegated E target opts di s)) = options s \<and>
   readStateResponses (snd (call_delegated E target opts di s)) = readStateResponses s \<and>
   this_agent (snd (call_delegated E target opts di s)) = this_agent s \<and>
   this_storage (snd (call_delegated E target opts di s)) = this_storage s"
  by (simp add: call_delegated_def promise_defs split: sum.splits)

lemma call_delegated_state:
  "call_delegated E target opts di s = (r, s') \<Longrightarrow>
     options s' = options s \<and> readStateResponses s' = readStateResponses s \<and>
     this_agent s' = this_agent s \<and> this_storage s' = this_storage s"
  using call_delegated_snd [of E target opts di s] by simp

lemma call_signer_snd:
  "options (snd (call_signer E target sender' opts s)) = options s \<and>
   delegatedRequestIds (snd (call_signer E target sender' opts s)) = delegatedRequestIds s \<and>
   this_agent (snd (call_signer E target sender' opts s)) = this_agent s \<and>
   this_storage (snd (call_signer E target sender' opts s)) = this_storage s"
  by (simp add: call_signer_def promise_defs Let_def split: sum.splits prod.splits)

lemma call_signer_state:
  "call_signer E target sender' opts s = (r, s') \<Longrightarrow>
     options s' = options s \<and> delegatedRequestIds s' = delegatedRequestIds s \<and>
     this_agent s' = this_agent s \<and> this_storage s' = this_storage s"
  using call_signer_snd [of E target sender' opts s] by simp

lemma call_when_delegated:
  assumes "delegation_condition (options s) (Principal [])"
    and "call E canisterId opts s = (r, s')"
  shows "options s' = options s \<and> readStateResponses s' = readStateResponses s \<and>
     this_agent s' = this_agent s \<and> this_storage s' = this_storage s"
proof (cases "getPrincipal E")
  case (Inl e)
  then show ?thesis using assms by (simp add: call_def promise_defs)
next
  case sender: (Inr sender')
  show ?thesis
  proof (cases "Principal_from E canisterId")
    case (Inl e)
    then show ?thesis using assms sender by (simp add: call_def promise_defs)
  next
    case target: (Inr target)
    have c: "delegation_condition (options s) target"
      using assms(1) delegation_condition_target by blast
    obtain r1 s1 where g: "getDelegationIdentity E sender' s = (r1, s1)"
      by (cases "getDelegationIdentity E sender' s")
    note same = getDelegationIdentity_same [OF g]
    show ?thesis
    proof (cases r1)
      case (Inl e)
      then show ?thesis using assms(2) sender target c g same
        by (simp add: call_def promise_defs same_instance_def)
    next
      case (Inr di)
      then obtain d where di: "di = Some d"
        using getDelegationIdentity_Some [OF delegation_condition_configured [OF c]] g
        by blast
      have "call_delegated E target opts d s1 = (r, s')"
        using assms(2) sender target c g Inr di by (simp add: call_def promise_defs)
      from call_delegated_state [OF this] same show ?thesis
        by (simp add: same_instance_def)
    qed
  qed
qed

lemma call_when_signer:
  assumes "\<not> delegation_condition (options s) (Principal [])"
    and "call E canisterId opts s = (r, s')"
  shows "options s' = options s \<and> delegatedRequestIds s' = delegatedRequestIds s \<and>
     this_agent s' = this_agent s \<and> this_storage s' = this_storage s"
proof (cases "getPrincipal E")
  case (Inl e)
  then show ?thesis using assms by (simp add: call_def promise_defs)
next
  case sender: (Inr sender')
  show ?thesis
  proof (cases "Principal_from E canisterId")
    case (Inl e)
    then show ?thesis using assms sender by (simp add: call_def promise_defs)
  next
    case target: (Inr target)
    have c: "\<not> delegation_condition (options s) target"
      using assms(1) delegation_condition_target by blast
    have "call_signer E target sender' opts s = (r, s')"
      using assms(2) sender target c by (simp add: call_def promise_defs)
    from call_signer_state [OF this] show ?thesis by simp
  qed
qed

lemma query_signer_state:
  assumes "query_signer E canisterId target opts s = (r, s')"
  shows "\<exists>r0 s0. call E canisterId opts s = (r0, s0) \<and>
           (s' = s0 \<or> (\<exists>k. s' = s0\<lparr>readStateResponses := (readStateResponses s0)(k := None)\<rparr>))"
proof -
  obtain r0 s0 where c: "call E canisterId opts s = (r0, s0)"
    by (cases "call E canisterId opts s")
  have "snd (query_signer E canisterId target opts s) = s0 \<or>
        (\<exists>k. snd (query_signer E canisterId target opts s)
               = s0\<lparr>readStateResponses := (readStateResponses s0)(k := None)\<rparr>)"
  proof (cases r0)
    case (Inl e)
    then show ?thesis using c by (simp add: query_signer_def await_def)
  next
    case (Inr submitResponse)
    show ?thesis
    proof (cases "readStateResponses s0 (toBase64 E (requestId submitResponse))")
      case None
      then show ?thesis using c Inr by (simp add: query_signer_def promise_defs Let_def)
    next
      case (Some readStateResponse)
      have "snd (query_signer E canisterId target opts s)
              = s0\<lparr>readStateResponses :=
                     (readStateResponses s0)(toBase64 E (requestId submitResponse) := None)\<rparr>"
        using c Inr Some
        by (simp add: query_signer_def promise_defs Let_def split: sum.splits)
      then show ?thesis by blast
    qed
  qed
  then show ?thesis using assms c by simp
qed

lemma query_when_delegated:
  assumes "delegation_condition (options s) (Principal [])"
    and "query E canisterId opts s = (r, s')"
  shows "same_instance s s'"
proof (cases "getPrincipal E")
  case (Inl e)
  then show ?thesis using assms by (simp add: query_def promise_defs same_instance_def)
next
  case sender: (Inr sender')
  show ?thesis
  proof (cases "Principal_from E canisterId")
    case (Inl e)
    then show ?thesis using assms sender by (simp add: query_def promise_defs same_instance_def)
  next
    case target: (Inr target)
    have c: "delegation_condition (options s) target"
      using assms(1) delegation_condition_target by blast
    obtain r1 s1 where g: "getDelegationIdentity E sender' s = (r1, s1)"
      by (cases "getDelegationIdentity E sender' s")
    note same = getDelegationIdentity_same [OF g]
    show ?thesis
    proof (cases r1)
      case (Inl e)
      then show ?thesis using assms(2) sender target c g same
        by (simp add: query_def promise_defs)
    next
      case (Inr di)
      then obtain d where di: "di = Some d"
        using getDelegationIdentity_Some [OF delegation_condition_configured [OF c]] g
        by blast
      have "s' = s1\<lparr>trace := trace s1 @ [Agent_query (this_agent s) canisterId opts d]\<rparr>"
        using assms(2) sender target c g Inr di by (simp add: query_def promise_defs)
      then show ?thesis using same by (simp add: same_instance_def)
    qed
  qed
qed

lemma query_when_signer:
  assumes "\<not> delegation_condition (options s) (Principal [])"
    and "query E canisterId opts s = (r, s')"
  shows "options s' = options s \<and> delegatedRequestIds s' = delegatedRequestIds s \<and>
     this_agent s' = this_agent s \<and> this_storage s' = this_storage s"
proof (cases "getPrincipal E")
  case (Inl e)
  then show ?thesis using assms by (simp add: query_def promise_defs)
next
  case sender: (Inr sender')
  show ?thesis
  proof (cases "Principal_from E canisterId")
    case (Inl e)
    then show ?thesis using assms sender by (simp add: query_def promise_defs)
  next
    case target: (Inr target)
    have c: "\<not> delegation_condition (options s) target"
      using assms(1) delegation_condition_target by blast
    have "query_signer E canisterId target opts s = (r, s')"
      using assms(2) sender target c by (simp add: query_def promise_defs)
    from query_signer_state [OF this] obtain r0 s0 where
      c0: "call E canisterId opts s = (r0, s0)" and
      s': "s' = s0 \<or> (\<exists>k. s' = s0\<lparr>readStateResponses := (readStateResponses s0)(k := None)\<rparr>)"
      by blast
    note call = call_when_signer [OF assms(1) c0]
    from s' show ?thesis
    proof
      assume "s' = s0"
      with call show ?thesis by simp
    next
      assume "\<exists>k. s' = s0\<lparr>readStateResponses := (readStateResponses s0)(k := None)\<rparr>"
      then obtain k where "s' = s0\<lparr>readStateResponses := (readStateResponses s0)(k := None)\<rparr>" ..
      with call show ?thesis by simp
    qed
  qed
qed

lemma readState_state:
  assumes "readState E canisterId opts s = (r, s')"
  shows "options s' = options s \<and> this_agent s' = this_agent s \<and> this_storage s' = this_storage s \<and>
     delegatedRequestIds s' \<subseteq> delegatedRequestIds s \<and>
     dom (readStateResponses s') \<subseteq> dom (readStateResponses s)"
proof (cases "requestIdFromReadStateOptions E opts")
  case None
  then show ?thesis using assms by (simp add: readState_def throw_def)
next
  case (Some rid)
  show ?thesis
  proof (cases "toBase64 E rid \<in> delegatedRequestIds s")
    case False
    then show ?thesis using assms Some
      by (auto simp: readState_def throw_def Let_def split: option.splits if_splits)
  next
    case True
    let ?s0 = "s\<lparr>delegatedRequestIds := delegatedRequestIds s - {toBase64 E rid}\<rparr>"
    have "frames (await (settle (getPrincipal E))
               (\<lambda>sender'.
                  await (getDelegationIdentity E sender')
                    (\<lambda>delegationIdentity s'.
                       external (Agent_readState (this_agent s') canisterId opts delegationIdentity)
                         (agent_readState (http E (this_agent s')) canisterId opts
                            delegationIdentity)
                         s')))"
      by (intro frames_await frames_settle frames_getDelegationIdentity)
        (simp add: frames_def external_def same_instance_def)
    from framesD [OF this, of ?s0] show ?thesis using assms Some True
      by (auto simp: readState_def Let_def same_instance_def)
  qed
qed

lemma createReadStateRequest_state:
  assumes "createReadStateRequest E opts s = (r, s')"
  shows "same_instance s s'"
proof (cases "requestIdFromReadStateOptions E opts")
  case None
  then show ?thesis using assms
    by (auto simp: createReadStateRequest_def throw_def same_instance_def)
next
  case (Some rid)
  have "frames (await (settle (getPrincipal E))
               (\<lambda>sender'.
                  await (getDelegationIdentity E sender')
                    (\<lambda>delegationIdentity s'.
                       external (Agent_createReadStateRequest (this_agent s') opts delegationIdentity)
                         (map_sum id Some
                            (agent_createReadStateRequest (http E (this_agent s')) opts
                               delegationIdentity))
                         s')))"
    by (intro frames_await frames_settle frames_getDelegationIdentity)
      (simp add: frames_def external_def same_instance_def)
  from framesD [OF this, of s] show ?thesis using assms Some
    by (auto simp: createReadStateRequest_def Let_def resolve_def same_instance_def split: if_splits)
qed

lemma reachable_single_path: "reachable s \<Longrightarrow> single_path s"
proof (induction rule: reachable.induct)
  case (init opts w)
  then show ?case
    by (simp add: single_path_def delegated_mode_def signer_mode_def constructor_def)
next
  case (after_call s E canisterId copts)
  obtain r s' where c: "call E canisterId copts s = (r, s')"
    by (cases "call E canisterId copts s")
  show ?case
  proof (cases "delegation_condition (options s) (Principal [])")
    case True
    with after_call.IH have "readStateResponses s = Map.empty"
      by (simp add: single_path_def delegated_mode_def signer_mode_def)
    with call_when_delegated [OF True c] True c show ?thesis
      by (simp add: single_path_def delegated_mode_def)
  next
    case False
    with after_call.IH have "delegatedRequestIds s = {}"
      by (simp add: single_path_def delegated_mode_def signer_mode_def)
    with call_when_signer [OF False c] False c show ?thesis
      by (simp add: single_path_def signer_mode_def)
  qed
next
  case (after_query s E canisterId copts)
  obtain r s' where c: "query E canisterId copts s = (r, s')"
    by (cases "query E canisterId copts s")
  show ?case
  proof (cases "delegation_condition (options s) (Principal [])")
    case True
    with after_query.IH have "readStateResponses s = Map.empty"
      by (simp add: single_path_def delegated_mode_def signer_mode_def)
    with query_when_delegated [OF True c] True c show ?thesis
      by (simp add: single_path_def delegated_mode_def same_instance_def)
  next
    case False
    with after_query.IH have "delegatedRequestIds s = {}"
      by (simp add: single_path_def delegated_mode_def signer_mode_def)
    with query_when_signer [OF False c] False c show ?thesis
      by (simp add: single_path_def signer_mode_def)
  qed
next
  case (after_readState s E canisterId ropts)
  obtain r s' where c: "readState E canisterId ropts s = (r, s')"
    by (cases "readState E canisterId ropts s")
  from readState_state [OF c] after_readState.IH c show ?case
    by (auto simp: single_path_def delegated_mode_def signer_mode_def)
next
  case (after_createReadStateRequest s E ropts)
  obtain r s' where c: "createReadStateRequest E ropts s = (r, s')"
    by (cases "createReadStateRequest E ropts s")
  from createReadStateRequest_state [OF c] after_createReadStateRequest.IH c show ?case
    by (auto simp: single_path_def delegated_mode_def signer_mode_def same_instance_def)
next
  case (storage_changed s w)
  then show ?case
    by (simp add: single_path_def delegated_mode_def signer_mode_def)
qed

lemma reachable_signer_mode:
  assumes "reachable s" and "\<not> delegation_condition (options s) target"
  shows "delegatedRequestIds s = {}"
  using reachable_single_path [OF assms(1)] assms(2) delegation_condition_target [of "options s" target]
  by (auto simp: single_path_def delegated_mode_def signer_mode_def)

lemma readState_unknown:
  assumes "requestIdFromReadStateOptions E opts = Some rid"
    and "toBase64 E rid \<notin> delegatedRequestIds s"
    and "readStateResponses s (toBase64 E rid) = None"
  shows "readState E canisterId opts s =
           (Inl (SignerAgentError ''Invalid read state request, response could not be found''), s)"
  using assms by (simp add: readState_def throw_def)

lemma readState_marked:
  assumes "requestIdFromReadStateOptions E opts = Some rid"
    and "toBase64 E rid \<in> delegatedRequestIds s"
  shows "readState E canisterId opts s =
     await (settle (getPrincipal E))
       (\<lambda>sender'.
          await (getDelegationIdentity E sender')
            (\<lambda>delegationIdentity s'.
               external (Agent_readState (this_agent s') canisterId opts delegationIdentity)
                 (agent_readState (http E (this_agent s')) canisterId opts delegationIdentity)
                 s'))
       (s\<lparr>delegatedRequestIds := delegatedRequestIds s - {toBase64 E rid}\<rparr>)"
  using assms by (simp add: readState_def)

lemma call_through_signer:
  assumes "getPrincipal E = Inr sender'"
    and "Principal_from E canisterId = Inr target"
    and "\<not> delegation_condition (options s) target"
    and "callCanister (signer E) target sender' (methodName opts) (call_arg opts)
           = Inr (contentMap, certificate')"
    and "decode E contentMap = Inr requestBody"
    and "request_type requestBody = ''call''"
    and "canister_id requestBody = target"
    and "method_name requestBody = methodName opts"
    and "arg requestBody = call_arg opts"
    and "sender requestBody = sender'"
  shows "call E canisterId opts s =
           (Inr \<lparr>requestId = requestIdOf E requestBody,
                 response = \<lparr>ok = True, status = 200,
                    statusText = ''Call has been sent over ICRC-25 JSON-RPC'',
                    body = None, headers = []\<rparr>\<rparr>,
            s\<lparr>trace := trace s @
                   [Signer_callCanister target sender' (methodName opts) (call_arg opts)],
              readStateResponses := (readStateResponses s)
                 (toBase64 E (requestIdOf E requestBody) \<mapsto> \<lparr>certificate = certificate'\<rparr>)\<rparr>)"
  using assms
  by (simp add: call_def call_signer_def promise_defs compareTo_eq_iff compare_eq_0_iff Let_def)

lemma query_through_signer:
  assumes "getPrincipal E = Inr sender'"
    and "Principal_from E canisterId = Inr target"
    and "\<not> delegation_condition (options s) target"
    and "callCanister (signer E) target sender' (methodName opts) (call_arg opts)
           = Inr (contentMap, certificate')"
    and "decode E contentMap = Inr requestBody"
    and "request_type requestBody = ''call''"
    and "canister_id requestBody = target"
    and "method_name requestBody = methodName opts"
    and "arg requestBody = call_arg opts"
    and "sender requestBody = sender'"
    and "Certificate_create E certificate' (rootKey (http E (this_agent s))) target
           (blsVerify (options s)) = Inr cert"
  shows "query E canisterId opts s =
          ((if map_option (TextDecoder_decode E)
                 (lookup cert [Buf (TextEncoder_encode E ''request_status''),
                    Buf (requestIdOf E requestBody), Buf (TextEncoder_encode E ''status'')])
               \<noteq> Some ''replied''
            then Inl (SignerAgentError ''Certificate is missing reply'')
            else Inr (Replied
                   (lookup cert [Buf (TextEncoder_encode E ''request_status''),
                      Buf (requestIdOf E requestBody), Str ''reply''])
                   \<lparr>ok = True, status = 200,
                    statusText = ''Certificate with reply has been received over ICRC-25 JSON-RPC'',
                    body = None, headers = []\<rparr>)),
           s\<lparr>trace := trace s @
                   [Signer_callCanister target sender' (methodName opts) (call_arg opts)],
             readStateResponses := (readStateResponses s)
                 (toBase64 E (requestIdOf E requestBody) := None)\<rparr>)"
proof -
  note c = call_through_signer [OF assms(1-10)]
  have q: "query E canisterId opts s = query_signer E canisterId target opts s"
    using assms(1-3) by (simp add: query_def promise_defs)
  show ?thesis
    unfolding q query_signer_def using c assms(11)
    by (simp add: promise_defs Let_def)
qed

lemma requestDelegationChain_requests:
  "getDelegation_requests (snd (requestDelegationChain E p k s)) =
     getDelegation_requests s @ [Signer_getDelegation p k (delegation_targets_opt (options s))]"
  by (simp add: requestDelegationChain_def setDelegationChain_def storage_set_def promise_defs
      getDelegation_requests_def split: sum.splits list.splits)

lemma requestDelegationChain_stored:
  assumes "getDelegation (signer E) p k (delegation_targets_opt (options s)) = Inr new"
    and "delegations new \<noteq> []"
  shows "requestDelegationChain E p k s =
     (Inr new,
      s\<lparr>trace := trace s @
            [Signer_getDelegation p k (delegation_targets_opt (options s)),
             Storage_set (this_storage s) (derived_key E new)
               (StringValue (DelegationChain_toJSON E new))],
        stores := (stores s)
            (this_storage s := (stores s (this_storage s))
               (derived_key E new \<mapsto> StringValue (DelegationChain_toJSON E new)))\<rparr>)"
  using assms
  by (simp add: requestDelegationChain_def setDelegationChain_def storage_set_def promise_defs
      derived_key_def split: list.splits)

lemma getDelegationChain_after_get:
  "getDelegationChain E p k s =
     (let s0 = s\<lparr>trace := trace s @ [Storage_get (this_storage s) (lookup_key E p k)]\<rparr> in
      case stores s (this_storage s) (lookup_key E p k) of
            Some (KeyPairValue kp) \<Rightarrow>
              (Inl (SignerAgentError ''Invalid delegation chain in storage''), s0)
          | None \<Rightarrow> requestDelegationChain E p k s0
          | Some (StringValue str) \<Rightarrow>
              if str = [] then requestDelegationChain E p k s0
              else
                (case DelegationChain_fromJSON E str of
                   Inl e \<Rightarrow> (Inl e, s0)
                 | Inr chain \<Rightarrow>
                     if \<not> isDelegationValid E chain (delegation_targets_opt (options s))
                     then requestDelegationChain E p k s0
                     else (Inr chain, s0)))"
  by (simp add: getDelegationChain_def storage_get_def promise_defs lookup_key_def Let_def
      split: option.splits storage_value.splits sum.splits)

lemma example_marked_state_eq:
  "example_marked_state =
     \<lparr>options = example_delegation_options, this_agent = HttpAgent_new,
      this_storage = IdbStorage_new, readStateResponses = Map.empty,
      delegatedRequestIds = {''T''},
      stores = (\<lambda>_. Map.empty)
        (IdbStorage_new :=
           [''delegation-identity-j'' \<mapsto> KeyPairValue 0,
            ''delegation-chain-j-A'' \<mapsto> StringValue ''chain'']),
      trace =
        [Storage_get IdbStorage_new ''delegation-identity-j'',
         Storage_set IdbStorage_new ''delegation-identity-j'' (KeyPairValue 0),
         Storage_get IdbStorage_new ''delegation-chain-j-A'',
         Signer_getDelegation (Principal [9]) [8] (Some [Principal [1]]),
         Storage_set IdbStorage_new ''delegation-chain-j-A'' (StringValue ''chain''),
         Agent_call HttpAgent_new (Principal [1]) example_call
           (fromDelegation (KeyIdentity (ECDSAKeyIdentity 0)) example_chain)]\<rparr>"
  by (simp add: example_marked_state_def example_defs
      example_delegation_state_def example_delegation_options_def run_defs)

subsection \<open>Routing\<close>

text \<open>
  Claim C1. The claim is that a call to a canister outside a configured, non-empty list
  of targets goes through the signer. The routing test does not read the canister of the
  request, so it does not: with the targets \<open>[[1]]\<close> configured, a call to the canister
  \<open>[2]\<close> is sent through the transport under the delegated identity, its identifier is
  marked as delegated, and the signer's \<open>callCanister\<close> is not used.
\<close>

theorem call_outside_targets_goes_delegated:
  "targets (the (delegation example_delegation_options)) = Some [Principal [1]] \<and>
   Principal [2] \<notin> set [Principal [1]] \<and>
   fst (call example_env (OfPrincipal (Principal [2])) example_call example_delegation_state) =
     Inr \<lparr>requestId = [77],
          response = \<lparr>ok = True, status = 202, statusText = ''Accepted'', body = None,
                        headers = []\<rparr>\<rparr> \<and>
   delegatedRequestIds
     (snd (call example_env (OfPrincipal (Principal [2])) example_call example_delegation_state))
     = {''T''} \<and>
   readStateResponses
     (snd (call example_env (OfPrincipal (Principal [2])) example_call example_delegation_state))
     = Map.empty \<and>
   trace
     (snd (call example_env (OfPrincipal (Principal [2])) example_call example_delegation_state))
     = [Storage_get IdbStorage_new ''delegation-identity-j'',
        Storage_set IdbStorage_new ''delegation-identity-j'' (KeyPairValue 0),
        Storage_get IdbStorage_new ''delegation-chain-j-A'',
        Signer_getDelegation (Principal [9]) [8] (Some [Principal [1]]),
        Storage_set IdbStorage_new ''delegation-chain-j-A'' (StringValue ''chain''),
        Agent_call HttpAgent_new (Principal [2]) example_call
          (fromDelegation (KeyIdentity (ECDSAKeyIdentity 0)) example_chain)]"
  by (simp add: example_defs example_state_defs run_defs)

subsection \<open>Calls through the signer\<close>

text \<open>
  Claim C2. A call that is routed through the signer (the routing test fails), whose
  signer answers with a content map that decodes to a request of type \<open>call\<close> with the
  target, method name, argument and sender that were asked for, returns the identifier
  \<open>requestIdOf\<close> computes from that decoded request, and leaves the signer's certificate
  in the certified-response cache under the key of that identifier.
\<close>

theorem signer_call_returns_canonical_request_id:
  assumes "getPrincipal E = Inr sender'"
    and "Principal_from E canisterId = Inr target"
    and "\<not> delegation_condition (options s) target"
    and "callCanister (signer E) target sender' (methodName opts) (call_arg opts)
           = Inr (contentMap, certificate')"
    and "decode E contentMap = Inr requestBody"
    and "request_type requestBody = ''call''"
    and "canister_id requestBody = target"
    and "method_name requestBody = methodName opts"
    and "arg requestBody = call_arg opts"
    and "sender requestBody = sender'"
  shows "\<exists>submitResponse s'.
           call E canisterId opts s = (Inr submitResponse, s') \<and>
           requestId submitResponse = requestIdOf E requestBody \<and>
           readStateResponses s' (toBase64 E (requestIdOf E requestBody))
             = Some \<lparr>certificate = certificate'\<rparr>"
  using assms
  by (simp add: call_def call_signer_def promise_defs compareTo_eq_iff compare_eq_0_iff Let_def)

theorem signer_call_returns_canonical_request_id_witness:
  "\<exists>submitResponse s'.
     call example_env (OfPrincipal (Principal [1])) example_call example_state
       = (Inr submitResponse, s') \<and>
     requestId submitResponse = [42] \<and>
     readStateResponses s' ''K'' = Some \<lparr>certificate = [11]\<rparr>"
  using signer_call_returns_canonical_request_id
    [of example_env "Principal [9]" "OfPrincipal (Principal [1])" "Principal [1]" example_state
      example_call "[10]" "[11]" example_request]
  by (simp add: example_defs Principal_from_def delegation_condition_def)

text \<open>
  Claim C3. A call that is routed through the signer, whose signer answers with a content
  map that decodes to a request differing from what was asked for in request type,
  target, method name, argument or sender, throws \<open>SignerAgentError\<close>; the
  certified-response cache, the delegated-request markers and the storages are as before.
\<close>

theorem signer_call_rejects_mismatch:
  assumes "getPrincipal E = Inr sender'"
    and "Principal_from E canisterId = Inr target"
    and "\<not> delegation_condition (options s) target"
    and "callCanister (signer E) target sender' (methodName opts) (call_arg opts)
           = Inr (contentMap, certificate')"
    and "decode E contentMap = Inr requestBody"
    and "request_type requestBody \<noteq> ''call'' \<or> canister_id requestBody \<noteq> target \<or>
         method_name requestBody \<noteq> methodName opts \<or> arg requestBody \<noteq> call_arg opts \<or>
         sender requestBody \<noteq> sender'"
  shows "\<exists>s'. call E canisterId opts s =
             (Inl (SignerAgentError ''Received invalid content map from signer ''), s') \<and>
           readStateResponses s' = readStateResponses s \<and>
           delegatedRequestIds s' = delegatedRequestIds s \<and>
           stores s' = stores s"
  using assms
  by (auto simp add: call_def call_signer_def promise_defs compareTo_eq_iff compare_eq_0_iff Let_def)

theorem signer_call_rejects_mismatch_witness:
  "\<exists>s'. call example_env (OfPrincipal (Principal [1]))
         (example_call\<lparr>methodName := ''transfer''\<rparr>) example_state =
             (Inl (SignerAgentError ''Received invalid content map from signer ''), s') \<and>
           readStateResponses s' = readStateResponses example_state \<and>
           delegatedRequestIds s' = delegatedRequestIds example_state \<and>
           stores s' = stores example_state"
  using signer_call_rejects_mismatch
    [of example_env "Principal [9]" "OfPrincipal (Principal [1])" "Principal [1]" example_state
      "example_call\<lparr>methodName := ''transfer''\<rparr>" "[10]" "[11]" example_request]
  by (simp add: example_defs Principal_from_def delegation_condition_def)


subsection \<open>Queries sent as calls\<close>

text \<open>
  Claim C4. In a reachable state, a query that is routed through the signer, whose call
  is accepted, whose certificate is accepted by \<open>Certificate.create\<close> and holds a status
  that decodes to \<open>replied\<close> under \<open>request_status / requestId / status\<close>, returns a
  replied response whose payload is what the certificate holds under
  \<open>request_status / requestId / reply\<close>. The record is gone from the cache afterwards, and
  a \<open>readState\<close> for the same identifier then throws the missing-correlation error.
\<close>

theorem query_upgrade_returns_reply:
  assumes "reachable s"
    and "getPrincipal E = Inr sender'"
    and "Principal_from E canisterId = Inr target"
    and "\<not> delegation_condition (options s) target"
    and "callCanister (signer E) target sender' (methodName opts) (call_arg opts)
           = Inr (contentMap, certificate')"
    and "decode E contentMap = Inr requestBody"
    and "request_type requestBody = ''call''"
    and "canister_id requestBody = target"
    and "method_name requestBody = methodName opts"
    and "arg requestBody = call_arg opts"
    and "sender requestBody = sender'"
    and "Certificate_create E certificate' (rootKey (http E (this_agent s))) target
           (blsVerify (options s)) = Inr cert"
    and "lookup cert [Buf (TextEncoder_encode E ''request_status''),
           Buf (requestIdOf E requestBody), Buf (TextEncoder_encode E ''status'')] = Some st"
    and "TextDecoder_decode E st = ''replied''"
  shows "\<exists>details s'.
           query E canisterId opts s =
             (Inr (Replied
                (lookup cert [Buf (TextEncoder_encode E ''request_status''),
                   Buf (requestIdOf E requestBody), Str ''reply''])
                details), s') \<and>
           readStateResponses s' (toBase64 E (requestIdOf E requestBody)) = None \<and>
           (\<forall>E' canisterId' ropts.
              requestIdFromReadStateOptions E' ropts = Some (requestIdOf E requestBody) \<and>
              toBase64 E' (requestIdOf E requestBody) = toBase64 E (requestIdOf E requestBody)
              \<longrightarrow>
              readState E' canisterId' ropts s' =
                (Inl (SignerAgentError
                   ''Invalid read state request, response could not be found''), s'))"
proof -
  let ?s' = "s\<lparr>trace := trace s @
                   [Signer_callCanister target sender' (methodName opts) (call_arg opts)],
             readStateResponses := (readStateResponses s)
                 (toBase64 E (requestIdOf E requestBody) := None)\<rparr>"
  have q: "query E canisterId opts s =
             (Inr (Replied
                (lookup cert [Buf (TextEncoder_encode E ''request_status''),
                   Buf (requestIdOf E requestBody), Str ''reply''])
                \<lparr>ok = True, status = 200,
                    statusText = ''Certificate with reply has been received over ICRC-25 JSON-RPC'',
                    body = None, headers = []\<rparr>), ?s')"
    using query_through_signer [OF assms(2-12)] assms(13,14) by simp
  have none: "readStateResponses ?s' (toBase64 E (requestIdOf E requestBody)) = None"
    by simp
  have markers: "delegatedRequestIds ?s' = {}"
    using reachable_signer_mode [OF assms(1,4)] by simp
  have "readState E' canisterId' ropts ?s' =
          (Inl (SignerAgentError ''Invalid read state request, response could not be found''), ?s')"
    if "requestIdFromReadStateOptions E' ropts = Some (requestIdOf E requestBody)"
      and "toBase64 E' (requestIdOf E requestBody) = toBase64 E (requestIdOf E requestBody)"
    for E' canisterId' ropts
    using that markers by (intro readState_unknown [where rid = "requestIdOf E requestBody"]) simp_all
  with q none show ?thesis by blast
qed

theorem query_upgrade_returns_reply_witness:
  "\<exists>details s'.
     query example_env (OfPrincipal (Principal [1])) example_call example_state
       = (Inr (Replied (Some [5, 6]) details), s') \<and>
     readStateResponses s' ''K'' = None \<and>
     readState example_env (OfPrincipal (Principal [1])) \<lparr>paths = [[[1], [42]]]\<rparr> s'
       = (Inl (SignerAgentError ''Invalid read state request, response could not be found''), s')"
proof -
  have r: "reachable example_state"
    unfolding example_state_def by (rule reachable.init)
  have "\<exists>details s'.
           query example_env (OfPrincipal (Principal [1])) example_call example_state =
             (Inr (Replied
                (lookup example_certificate [Buf (TextEncoder_encode example_env ''request_status''),
                   Buf (requestIdOf example_env example_request), Str ''reply''])
                details), s') \<and>
           readStateResponses s' (toBase64 example_env (requestIdOf example_env example_request)) = None \<and>
           (\<forall>E' canisterId' ropts.
              requestIdFromReadStateOptions E' ropts = Some (requestIdOf example_env example_request) \<and>
              toBase64 E' (requestIdOf example_env example_request)
                = toBase64 example_env (requestIdOf example_env example_request)
              \<longrightarrow>
              readState E' canisterId' ropts s' =
                (Inl (SignerAgentError
                   ''Invalid read state request, response could not be found''), s'))"
    by (rule query_upgrade_returns_reply
          [OF r, where sender' = "Principal [9]" and target = "Principal [1]"
            and contentMap = "[10]" and certificate' = "[11]" and st = "[3]"])
      (simp_all add: example_defs Principal_from_def delegation_condition_def)
  then obtain details s' where
    q: "query example_env (OfPrincipal (Principal [1])) example_call example_state =
             (Inr (Replied
                (lookup example_certificate [Buf (TextEncoder_encode example_env ''request_status''),
                   Buf (requestIdOf example_env example_request), Str ''reply''])
                details), s')"
    and n: "readStateResponses s' (toBase64 example_env (requestIdOf example_env example_request)) = None"
    and rs: "\<And>E' canisterId' ropts.
              requestIdFromReadStateOptions E' ropts = Some (requestIdOf example_env example_request) \<Longrightarrow>
              toBase64 E' (requestIdOf example_env example_request)
                = toBase64 example_env (requestIdOf example_env example_request)
              \<Longrightarrow>
              readState E' canisterId' ropts s' =
                (Inl (SignerAgentError
                   ''Invalid read state request, response could not be found''), s')"
    by blast
  have id: "requestIdOf example_env example_request = [42]"
    by (simp add: example_env_def)
  have "requestIdFromReadStateOptions example_env \<lparr>paths = [[[1], [42]]]\<rparr> = Some [42]"
    by (simp add: requestIdFromReadStateOptions_def example_env_def)
  from rs [of example_env "\<lparr>paths = [[[1], [42]]]\<rparr>" "OfPrincipal (Principal [1])"] this id
  have "readState example_env (OfPrincipal (Principal [1])) \<lparr>paths = [[[1], [42]]]\<rparr> s'
       = (Inl (SignerAgentError ''Invalid read state request, response could not be found''), s')"
    by simp
  moreover have "lookup example_certificate [Buf (TextEncoder_encode example_env ''request_status''),
                   Buf (requestIdOf example_env example_request), Str ''reply''] = Some [5, 6]"
    by (simp add: example_env_def example_certificate_def)
  moreover have "toBase64 example_env (requestIdOf example_env example_request) = ''K''"
    by (simp add: example_env_def)
  ultimately show ?thesis using q n by auto
qed

text \<open>
  The status test of \<open>query\<close>: with no status, or a status that does not decode to
  \<open>replied\<close>, under \<open>request_status / requestId / status\<close>, a query routed through the
  signer throws \<open>SignerAgentError\<close> with the message \<open>Certificate is missing reply\<close>.
\<close>

lemma query_signer_requires_replied:
  assumes "getPrincipal E = Inr sender'"
    and "Principal_from E canisterId = Inr target"
    and "\<not> delegation_condition (options s) target"
    and "callCanister (signer E) target sender' (methodName opts) (call_arg opts)
           = Inr (contentMap, certificate')"
    and "decode E contentMap = Inr requestBody"
    and "request_type requestBody = ''call''"
    and "canister_id requestBody = target"
    and "method_name requestBody = methodName opts"
    and "arg requestBody = call_arg opts"
    and "sender requestBody = sender'"
    and "Certificate_create E certificate' (rootKey (http E (this_agent s))) target
           (blsVerify (options s)) = Inr cert"
    and "map_option (TextDecoder_decode E)
           (lookup cert [Buf (TextEncoder_encode E ''request_status''),
              Buf (requestIdOf E requestBody), Buf (TextEncoder_encode E ''status'')])
         \<noteq> Some ''replied''"
  shows "fst (query E canisterId opts s) = Inl (SignerAgentError ''Certificate is missing reply'')"
  using query_through_signer [OF assms(1-11)] assms(12) by simp

text \<open>
  Claim C5. The claim is that a query routed through the signer fails when the status is
  not \<open>replied\<close> or when the reply is absent. The first half holds, by the lemma above.
  The second does not: the reply is looked up under a non-null assertion and its
  presence is never tested, so with the status \<open>replied\<close> and nothing under
  \<open>request_status / requestId / reply\<close> in the certificate, \<open>query\<close> throws nothing and
  returns a replied response whose payload is absent.
\<close>

theorem query_returns_absent_reply:
  "lookup example_certificate_no_reply
     [Buf (TextEncoder_encode example_env ''request_status''), Buf [42], Str ''reply''] = None \<and>
   fst (query
          example_env_no_reply
          (OfPrincipal (Principal [1])) example_call example_state)
     = Inr (Replied None
         \<lparr>ok = True, status = 200,
          statusText = ''Certificate with reply has been received over ICRC-25 JSON-RPC'',
          body = None, headers = []\<rparr>)"
proof -
  have "query
          example_env_no_reply
          (OfPrincipal (Principal [1])) example_call example_state
        = (Inr (Replied None
         \<lparr>ok = True, status = 200,
          statusText = ''Certificate with reply has been received over ICRC-25 JSON-RPC'',
          body = None, headers = []\<rparr>),
          example_state\<lparr>trace := [Signer_callCanister (Principal [1]) (Principal [9]) ''greet'' [7]],
             readStateResponses := Map.empty\<rparr>)"
    using query_through_signer
      [where E = example_env_no_reply
        and sender' = "Principal [9]" and target = "Principal [1]"
        and canisterId = "OfPrincipal (Principal [1])" and s = example_state
        and opts = example_call
        and contentMap = "[10]" and certificate' = "[11]" and cert = example_certificate_no_reply
        and requestBody = example_request]
    by (simp add: example_env_no_reply_def example_defs example_certificate_no_reply_def
        Principal_from_def delegation_condition_def)
  then show ?thesis
    by (simp add: example_certificate_no_reply_def example_env_def)
qed

subsection \<open>Read-state requests of delegated calls\<close>

text \<open>
  In a reachable state with a marked identifier the delegation is configured: markers are
  only made on the delegated path.
\<close>

lemma reachable_marked_configured:
  assumes "reachable s" and "k \<in> delegatedRequestIds s"
  shows "delegation (options s) \<noteq> None"
proof -
  from reachable_single_path [OF assms(1)] assms(2)
  have "delegation_condition (options s) (Principal [])"
    by (auto simp: single_path_def delegated_mode_def signer_mode_def)
  then show ?thesis by (rule delegation_condition_configured)
qed

text \<open>
  Claim C6. A \<open>readState\<close> whose identifier is marked as delegated removes the mark,
  whatever happens next. In a reachable state it then derives the delegated identity
  anew for the principal \<open>getPrincipal\<close> answers: the base identity of that principal,
  and the delegation chain for that principal and the public key of that base identity;
  when both are obtained, the result is that of the transport's \<open>readState\<close> under the
  delegated identity made of the two, and the use of the transport is recorded with
  that identity. With no certified response cached for the identifier, a second
  \<open>readState\<close> for it throws the missing-correlation error.
\<close>

theorem readState_consumes_marker:
  assumes "requestIdFromReadStateOptions E opts = Some rid"
    and "toBase64 E rid \<in> delegatedRequestIds s"
  shows "toBase64 E rid \<notin> delegatedRequestIds (snd (readState E canisterId opts s)) \<and>
    (reachable s \<longrightarrow>
       (\<forall>sender' baseIdentity s1 delegationChain s2.
          getPrincipal E = Inr sender' \<and>
          getDelegationBaseIdentity E sender'
            (s\<lparr>delegatedRequestIds := delegatedRequestIds s - {toBase64 E rid}\<rparr>)
            = (Inr baseIdentity, s1) \<and>
          getDelegationChain E sender' (toDer E baseIdentity) s1 = (Inr delegationChain, s2)
          \<longrightarrow>
          readState E canisterId opts s =
            (agent_readState (http E (this_agent s)) canisterId opts
               (Some (fromDelegation baseIdentity delegationChain)),
             s2\<lparr>trace := trace s2 @
                  [Agent_readState (this_agent s) canisterId opts
                     (Some (fromDelegation baseIdentity delegationChain))]\<rparr>))) \<and>
    (readStateResponses s (toBase64 E rid) = None \<longrightarrow>
       (\<forall>E' canisterId' opts'.
          requestIdFromReadStateOptions E' opts' = Some rid \<and>
          toBase64 E' rid = toBase64 E rid \<longrightarrow>
          fst (readState E' canisterId' opts' (snd (readState E canisterId opts s))) =
            Inl (SignerAgentError ''Invalid read state request, response could not be found'')))"
proof -
  let ?k = "toBase64 E rid"
  let ?s0 = "s\<lparr>delegatedRequestIds := delegatedRequestIds s - {?k}\<rparr>"
  let ?m = "await (settle (getPrincipal E))
       (\<lambda>sender'.
          await (getDelegationIdentity E sender')
            (\<lambda>delegationIdentity s'.
               external (Agent_readState (this_agent s') canisterId opts delegationIdentity)
                 (agent_readState (http E (this_agent s')) canisterId opts delegationIdentity)
                 s'))"
  note rs = readState_marked [OF assms, of canisterId]
  have "frames ?m"
    by (intro frames_await frames_settle frames_getDelegationIdentity)
      (simp add: frames_def external_def same_instance_def)
  from framesD [OF this, of ?s0] have same: "same_instance ?s0 (snd (readState E canisterId opts s))"
    using rs by simp
  have removed: "?k \<notin> delegatedRequestIds (snd (readState E canisterId opts s))"
    using same by (simp add: same_instance_def)
  have forwarded: "readState E canisterId opts s =
            (agent_readState (http E (this_agent s)) canisterId opts
               (Some (fromDelegation baseIdentity delegationChain)),
             s2\<lparr>trace := trace s2 @
                  [Agent_readState (this_agent s) canisterId opts
                     (Some (fromDelegation baseIdentity delegationChain))]\<rparr>)"
    if r: "reachable s" and p: "getPrincipal E = Inr sender'"
      and b: "getDelegationBaseIdentity E sender' ?s0 = (Inr baseIdentity, s1)"
      and c: "getDelegationChain E sender' (toDer E baseIdentity) s1 = (Inr delegationChain, s2)"
    for sender' baseIdentity s1 delegationChain s2
  proof -
    have "delegation (options ?s0) \<noteq> None"
      using reachable_marked_configured [OF r assms(2)] by simp
    then have g: "getDelegationIdentity E sender' ?s0
                    = (Inr (Some (fromDelegation baseIdentity delegationChain)), s2)"
      using b c by (simp add: getDelegationIdentity_def await_def resolve_def)
    have "this_agent s2 = this_agent s"
      using getDelegationIdentity_same [OF g] by (simp add: same_instance_def)
    then show ?thesis
      using rs p g by (simp add: promise_defs)
  qed
  have second: "fst (readState E' canisterId' opts' (snd (readState E canisterId opts s))) =
            Inl (SignerAgentError ''Invalid read state request, response could not be found'')"
    if "readStateResponses s ?k = None"
      and "requestIdFromReadStateOptions E' opts' = Some rid" and "toBase64 E' rid = ?k"
    for E' canisterId' opts'
  proof -
    have "readStateResponses (snd (readState E canisterId opts s)) ?k = None"
      using same that(1) by (simp add: same_instance_def)
    with removed that(2,3) show ?thesis
      by (subst readState_unknown [where rid = rid]) simp_all
  qed
  from removed forwarded second show ?thesis by blast
qed

theorem readState_consumes_marker_witness:
  "requestIdFromReadStateOptions example_env example_read = Some [77] \<and>
   toBase64 example_env [77] \<in> delegatedRequestIds example_marked_state \<and>
   reachable example_marked_state \<and>
   ''T'' \<notin> delegatedRequestIds
      (snd (readState example_env (OfPrincipal (Principal [1])) example_read example_marked_state)) \<and>
   fst (readState example_env (OfPrincipal (Principal [1])) example_read example_marked_state)
     = Inr \<lparr>certificate = [4]\<rparr> \<and>
   last (trace
      (snd (readState example_env (OfPrincipal (Principal [1])) example_read example_marked_state)))
     = Agent_readState HttpAgent_new (OfPrincipal (Principal [1])) example_read
         (Some (fromDelegation (KeyIdentity (ECDSAKeyIdentity 0)) example_chain)) \<and>
   fst (readState example_env (OfPrincipal (Principal [1])) example_read
          (snd (readState example_env (OfPrincipal (Principal [1])) example_read
                  example_marked_state)))
     = Inl (SignerAgentError ''Invalid read state request, response could not be found'')"
proof -
  let ?c = "OfPrincipal (Principal [1])"
  let ?s0 = "example_marked_state\<lparr>delegatedRequestIds :=
               delegatedRequestIds example_marked_state - {toBase64 example_env [77]}\<rparr>"
  let ?b = "KeyIdentity (ECDSAKeyIdentity 0)"
  let ?s1 = "snd (getDelegationBaseIdentity example_env (Principal [9]) ?s0)"
  let ?s2 = "snd (getDelegationChain example_env (Principal [9]) (toDer example_env ?b) ?s1)"
  have h1: "requestIdFromReadStateOptions example_env example_read = Some [77]"
    by (simp add: requestIdFromReadStateOptions_def example_read_def example_env_def)
  have h2: "toBase64 example_env [77] \<in> delegatedRequestIds example_marked_state"
    by (simp add: example_marked_state_eq example_env_def)
  have r: "reachable example_marked_state"
    unfolding example_marked_state_def example_delegation_state_def
    by (intro reachable.after_call reachable.init)
  note t = readState_consumes_marker [OF h1 h2, of ?c]
  have k: "toBase64 example_env [77] = ''T''"
    by (simp add: example_env_def)
  have "fst (getDelegationBaseIdentity example_env (Principal [9]) ?s0) = Inr ?b"
    by (simp add: example_marked_state_eq example_defs example_delegation_options_def run_defs)
  then have b: "getDelegationBaseIdentity example_env (Principal [9]) ?s0 = (Inr ?b, ?s1)"
    by (metis prod.collapse)
  have "fst (getDelegationChain example_env (Principal [9]) (toDer example_env ?b) ?s1)
          = Inr example_chain"
    by (simp add: example_marked_state_eq example_defs example_delegation_options_def run_defs)
  then have c: "getDelegationChain example_env (Principal [9]) (toDer example_env ?b) ?s1
                  = (Inr example_chain, ?s2)"
    by (metis prod.collapse)
  have p: "getPrincipal example_env = Inr (Principal [9])"
    by (simp add: example_env_def)
  from t r p b c have run: "readState example_env ?c example_read example_marked_state =
      (agent_readState (http example_env (this_agent example_marked_state)) ?c example_read
         (Some (fromDelegation ?b example_chain)),
       ?s2\<lparr>trace := trace ?s2 @
            [Agent_readState (this_agent example_marked_state) ?c example_read
               (Some (fromDelegation ?b example_chain))]\<rparr>)"
    by blast
  have forwarded: "fst (readState example_env ?c example_read example_marked_state)
     = Inr \<lparr>certificate = [4]\<rparr>"
    unfolding run by (simp add: example_env_def example_http_def)
  have recorded: "last (trace (snd (readState example_env ?c example_read example_marked_state)))
     = Agent_readState HttpAgent_new ?c example_read (Some (fromDelegation ?b example_chain))"
    unfolding run by (simp add: example_marked_state_eq)
  have "readStateResponses example_marked_state (toBase64 example_env [77]) = None"
    by (simp add: example_marked_state_eq)
  with t h1 have second:
    "fst (readState example_env ?c example_read
          (snd (readState example_env ?c example_read example_marked_state)))
     = Inl (SignerAgentError ''Invalid read state request, response could not be found'')"
    by blast
  from t k have "''T'' \<notin> delegatedRequestIds
      (snd (readState example_env ?c example_read example_marked_state))"
    by simp
  with h1 h2 r forwarded recorded second show ?thesis by simp
qed

subsection \<open>The request identifier of a read-state request\<close>

text \<open>
  Claim C7. \<open>requestIdFromReadStateOptions\<close> finds the identifier \<open>rid\<close> exactly when the
  options hold one path, of two segments, whose first segment decodes to
  \<open>request_status\<close> and whose second is \<open>rid\<close>. When it finds none, \<open>readState\<close> and
  \<open>createReadStateRequest\<close> throw the invalid-input \<open>SignerAgentError\<close> and change
  nothing.
\<close>

theorem request_id_extraction:
  "(requestIdFromReadStateOptions E opts = Some rid \<longleftrightarrow>
      (\<exists>seg. paths opts = [[seg, rid]] \<and> TextDecoder_decode E seg = ''request_status''))
   \<and> (requestIdFromReadStateOptions E opts = None \<longrightarrow>
        readState E canisterId opts s =
          (Inl (SignerAgentError
             ''Invalid read state request, request id could not be found in options''), s) \<and>
        createReadStateRequest E opts s =
          (Inl (SignerAgentError
             ''Invalid read state request, request id could not be found in options''), s))"
proof -
  have "requestIdFromReadStateOptions E opts = Some rid \<longleftrightarrow>
      (\<exists>seg. paths opts = [[seg, rid]] \<and> TextDecoder_decode E seg = ''request_status'')"
    unfolding requestIdFromReadStateOptions_def Let_def
    by (auto simp: length_Suc_conv numeral_2_eq_2)
  moreover have "requestIdFromReadStateOptions E opts = None \<longrightarrow>
        readState E canisterId opts s =
          (Inl (SignerAgentError
             ''Invalid read state request, request id could not be found in options''), s) \<and>
        createReadStateRequest E opts s =
          (Inl (SignerAgentError
             ''Invalid read state request, request id could not be found in options''), s)"
    by (simp add: readState_def createReadStateRequest_def throw_def)
  ultimately show ?thesis by blast
qed

theorem request_id_extraction_witness:
  "requestIdFromReadStateOptions example_env \<lparr>paths = [[[1], [42]]]\<rparr> = Some [42] \<and>
   readState example_env (OfPrincipal (Principal [1])) \<lparr>paths = [[[4], [5], [6]]]\<rparr> example_state =
     (Inl (SignerAgentError
        ''Invalid read state request, request id could not be found in options''), example_state) \<and>
   createReadStateRequest example_env \<lparr>paths = [[[2], [42]]]\<rparr> example_state =
     (Inl (SignerAgentError
        ''Invalid read state request, request id could not be found in options''), example_state)"
proof -
  have a: "requestIdFromReadStateOptions example_env \<lparr>paths = [[[1], [42]]]\<rparr> = Some [42]"
    using request_id_extraction [of example_env "\<lparr>paths = [[[1], [42]]]\<rparr>" "[42]"]
    by (simp add: example_env_def)
  have n3: "requestIdFromReadStateOptions example_env \<lparr>paths = [[[4], [5], [6]]]\<rparr> = None"
    by (simp add: requestIdFromReadStateOptions_def)
  have n2: "requestIdFromReadStateOptions example_env \<lparr>paths = [[[2], [42]]]\<rparr> = None"
    by (simp add: requestIdFromReadStateOptions_def example_env_def)
  show ?thesis
    using a
      request_id_extraction [of example_env "\<lparr>paths = [[[4], [5], [6]]]\<rparr>" "[42]"
          "OfPrincipal (Principal [1])" example_state]
      request_id_extraction [of example_env "\<lparr>paths = [[[2], [42]]]\<rparr>" "[42]"
          "OfPrincipal (Principal [1])" example_state]
      n2 n3
    by simp
qed

subsection \<open>Acquiring a delegation chain\<close>

text \<open>
  Claim C8, as amended. \<open>getDelegationChain\<close> reads the storage under the lookup key.
  A non-empty string there that parses to a chain valid for the configured targets is
  returned, with no request to the signer and no write. With nothing or the empty string
  there, or a chain that is not valid, exactly one chain is requested from the signer;
  when the signer answers with a chain of at least one delegation, it is written under
  the key derived from it and returned. A value there that is not a string makes
  \<open>getDelegationChain\<close> throw \<open>SignerAgentError\<close>, with no request and no write.
\<close>

theorem delegation_chain_acquisition:
  assumes "json = stores s (this_storage s) (lookup_key E principal' publicKey')"
    and "scope = delegation_targets_opt (options s)"
    and "s' = snd (getDelegationChain E principal' publicKey' s)"
  shows
    "(\<forall>str chain.
        json = Some (StringValue str) \<and> str \<noteq> [] \<and>
        DelegationChain_fromJSON E str = Inr chain \<and> isDelegationValid E chain scope \<longrightarrow>
        fst (getDelegationChain E principal' publicKey' s) = Inr chain \<and>
        getDelegation_requests s' = getDelegation_requests s \<and> stores s' = stores s)
     \<and>
     (json = None \<or> json = Some (StringValue []) \<or>
      (\<exists>str chain. json = Some (StringValue str) \<and> str \<noteq> [] \<and>
         DelegationChain_fromJSON E str = Inr chain \<and> \<not> isDelegationValid E chain scope) \<longrightarrow>
        getDelegation_requests s' =
          getDelegation_requests s @ [Signer_getDelegation principal' publicKey' scope] \<and>
        (\<forall>new. getDelegation (signer E) principal' publicKey' scope = Inr new \<and>
               delegations new \<noteq> [] \<longrightarrow>
           fst (getDelegationChain E principal' publicKey' s) = Inr new \<and>
           stores s' = (stores s)
             (this_storage s := (stores s (this_storage s))
                (derived_key E new \<mapsto> StringValue (DelegationChain_toJSON E new)))))
     \<and>
     (\<forall>k. json = Some (KeyPairValue k) \<longrightarrow>
        fst (getDelegationChain E principal' publicKey' s) =
          Inl (SignerAgentError ''Invalid delegation chain in storage'') \<and>
        getDelegation_requests s' = getDelegation_requests s \<and> stores s' = stores s)"
proof -
  let ?s0 = "s\<lparr>trace := trace s @ [Storage_get (this_storage s) (lookup_key E principal' publicKey')]\<rparr>"
  note g = getDelegationChain_after_get [of E principal' publicKey' s]
  have r0: "getDelegation_requests ?s0 = getDelegation_requests s"
    by (simp add: getDelegation_requests_def)
  have reuse: "fst (getDelegationChain E principal' publicKey' s) = Inr chain \<and>
        getDelegation_requests s' = getDelegation_requests s \<and> stores s' = stores s"
    if "json = Some (StringValue str)" "str \<noteq> []"
        "DelegationChain_fromJSON E str = Inr chain" "isDelegationValid E chain scope"
    for str chain
    using that assms g r0 by (simp add: Let_def)
  have guard: "fst (getDelegationChain E principal' publicKey' s) =
          Inl (SignerAgentError ''Invalid delegation chain in storage'') \<and>
        getDelegation_requests s' = getDelegation_requests s \<and> stores s' = stores s"
    if "json = Some (KeyPairValue k)" for k
    using that assms g r0 by (simp add: Let_def)
  have fresh: "getDelegation_requests s' =
          getDelegation_requests s @ [Signer_getDelegation principal' publicKey' scope] \<and>
        (\<forall>new. getDelegation (signer E) principal' publicKey' scope = Inr new \<and>
               delegations new \<noteq> [] \<longrightarrow>
           fst (getDelegationChain E principal' publicKey' s) = Inr new \<and>
           stores s' = (stores s)
             (this_storage s := (stores s (this_storage s))
                (derived_key E new \<mapsto> StringValue (DelegationChain_toJSON E new))))"
    if "json = None \<or> json = Some (StringValue []) \<or>
      (\<exists>str chain. json = Some (StringValue str) \<and> str \<noteq> [] \<and>
         DelegationChain_fromJSON E str = Inr chain \<and> \<not> isDelegationValid E chain scope)"
  proof -
    have eq: "getDelegationChain E principal' publicKey' s
                = requestDelegationChain E principal' publicKey' ?s0"
      using that assms(1,2) g by (auto simp: Let_def)
    have 1: "getDelegation_requests s' =
          getDelegation_requests s @ [Signer_getDelegation principal' publicKey' scope]"
      using requestDelegationChain_requests [of E principal' publicKey' ?s0] r0 assms(2,3) eq
      by simp
    have 2: "fst (getDelegationChain E principal' publicKey' s) = Inr new \<and>
           stores s' = (stores s)
             (this_storage s := (stores s (this_storage s))
                (derived_key E new \<mapsto> StringValue (DelegationChain_toJSON E new)))"
      if "getDelegation (signer E) principal' publicKey' scope = Inr new" "delegations new \<noteq> []"
      for new
      using requestDelegationChain_stored [of E principal' publicKey' ?s0 new] that assms(2,3) eq
      by simp
    from 1 2 show ?thesis by blast
  qed
  from reuse guard fresh show ?thesis by blast
qed

theorem delegation_chain_acquisition_witness:
  "fst (getDelegationChain example_env (Principal [9]) [8] example_marked_state) = Inr example_chain \<and>
   getDelegation_requests
     (snd (getDelegationChain example_env (Principal [9]) [8] example_marked_state))
     = getDelegation_requests example_marked_state \<and>
   getDelegation_requests
     (snd (getDelegationChain example_env (Principal [5]) [8] example_stale_state))
     = [Signer_getDelegation (Principal [5]) [8] (Some [Principal [1]])] \<and>
   fst (getDelegationChain example_env (Principal [5]) [8] example_stale_state) = Inr example_chain \<and>
   stores (snd (getDelegationChain example_env (Principal [5]) [8] example_stale_state))
     IdbStorage_new ''delegation-chain-j-A'' = Some (StringValue ''chain'') \<and>
   fst (getDelegationChain example_env (Principal [9]) [8] example_keypair_state) =
     Inl (SignerAgentError ''Invalid delegation chain in storage'')"
proof -
  note reuse = delegation_chain_acquisition
    [OF refl refl refl, of example_marked_state example_env "Principal [9]" "[8]"]
  note fresh = delegation_chain_acquisition
    [OF refl refl refl, of example_stale_state example_env "Principal [5]" "[8]"]
  note guard = delegation_chain_acquisition
    [OF refl refl refl, of example_keypair_state example_env "Principal [9]" "[8]"]
  have 1: "stores example_marked_state (this_storage example_marked_state)
             (lookup_key example_env (Principal [9]) [8]) = Some (StringValue ''chain'')"
    by (simp add: example_marked_state_eq lookup_key_def example_env_def)
  have 2: "DelegationChain_fromJSON example_env ''chain'' = Inr example_chain"
    by (simp add: example_env_def)
  have 3: "isDelegationValid example_env example_chain
             (delegation_targets_opt (options example_marked_state))"
    by (simp add: example_env_def example_chain_def)
  from reuse 1 2 3 have a:
    "fst (getDelegationChain example_env (Principal [9]) [8] example_marked_state) = Inr example_chain \<and>
     getDelegation_requests
       (snd (getDelegationChain example_env (Principal [9]) [8] example_marked_state))
     = getDelegation_requests example_marked_state"
    by simp
  have 4: "stores example_stale_state (this_storage example_stale_state)
             (lookup_key example_env (Principal [5]) [8]) = Some (StringValue ''old chain'')"
    by (simp add: example_keypair_state_def example_stale_state_def example_state_defs
        constructor_def lookup_key_def example_env_def)
  have 5: "DelegationChain_fromJSON example_env ''old chain'' = Inr example_old_chain"
    by (simp add: example_env_def)
  have 6: "\<not> isDelegationValid example_env example_old_chain
             (delegation_targets_opt (options example_stale_state))"
    by (simp add: example_env_def example_old_chain_def)
  have 7: "getDelegation (signer example_env) (Principal [5]) [8]
             (delegation_targets_opt (options example_stale_state)) = Inr example_chain"
    by (simp add: example_env_def)
  have 8: "delegations example_chain \<noteq> []"
    by (simp add: example_chain_def)
  from fresh 4 5 6 have
    "getDelegation_requests
       (snd (getDelegationChain example_env (Principal [5]) [8] example_stale_state))
     = getDelegation_requests example_stale_state @
         [Signer_getDelegation (Principal [5]) [8]
            (delegation_targets_opt (options example_stale_state))] \<and>
     (\<forall>new. getDelegation (signer example_env) (Principal [5]) [8]
               (delegation_targets_opt (options example_stale_state)) = Inr new \<and>
            delegations new \<noteq> [] \<longrightarrow>
        fst (getDelegationChain example_env (Principal [5]) [8] example_stale_state) = Inr new \<and>
        stores (snd (getDelegationChain example_env (Principal [5]) [8] example_stale_state)) =
          (stores example_stale_state)
            (this_storage example_stale_state :=
               (stores example_stale_state (this_storage example_stale_state))
                 (derived_key example_env new \<mapsto>
                    StringValue (DelegationChain_toJSON example_env new))))"
    by blast
  with 7 8 have b:
    "getDelegation_requests
       (snd (getDelegationChain example_env (Principal [5]) [8] example_stale_state))
     = [Signer_getDelegation (Principal [5]) [8] (Some [Principal [1]])] \<and>
     fst (getDelegationChain example_env (Principal [5]) [8] example_stale_state) = Inr example_chain \<and>
     stores (snd (getDelegationChain example_env (Principal [5]) [8] example_stale_state))
       IdbStorage_new ''delegation-chain-j-A'' = Some (StringValue ''chain'')"
    by (simp add: example_stale_state_def example_state_defs constructor_def
        getDelegation_requests_def delegation_targets_opt_def derived_key_def example_env_def
        example_chain_def)
  have 9: "stores example_keypair_state (this_storage example_keypair_state)
             (lookup_key example_env (Principal [9]) [8]) = Some (KeyPairValue 3)"
    by (simp add: example_keypair_state_def example_stale_state_def example_state_defs
        constructor_def lookup_key_def example_env_def)
  from guard 9 have c:
    "fst (getDelegationChain example_env (Principal [9]) [8] example_keypair_state) =
       Inl (SignerAgentError ''Invalid delegation chain in storage'')"
    by simp
  from a b c show ?thesis by simp
qed

text \<open>
  Claim C8 as stated fails in its second half. With a key pair stored under the lookup
  key no valid chain is cached, yet no chain is requested: \<open>getDelegationChain\<close> throws.
  And the new chain is written under the key derived from it: when the signer answers
  for another account than the one asked for, the expired entry stays where it was.
\<close>

theorem delegation_chain_acquisition_counterexample:
  "stores example_keypair_state (this_storage example_keypair_state)
     (lookup_key example_env (Principal [9]) [8]) = Some (KeyPairValue 3) \<and>
   fst (getDelegationChain example_env (Principal [9]) [8] example_keypair_state) =
     Inl (SignerAgentError ''Invalid delegation chain in storage'') \<and>
   getDelegation_requests
     (snd (getDelegationChain example_env (Principal [9]) [8] example_keypair_state)) = [] \<and>
   stores example_stale_state (this_storage example_stale_state)
     (lookup_key example_env (Principal [5]) [8]) = Some (StringValue ''old chain'') \<and>
   fst (getDelegationChain example_env (Principal [5]) [8] example_stale_state) = Inr example_chain \<and>
   stores (snd (getDelegationChain example_env (Principal [5]) [8] example_stale_state))
     IdbStorage_new =
     [''delegation-chain-a-A'' \<mapsto> StringValue ''old chain'',
      ''delegation-chain-j-A'' \<mapsto> StringValue ''chain'']"
  by (simp add: example_defs example_keypair_state_def example_stale_state_def
      example_state_defs run_defs lookup_key_def getDelegation_requests_def)

subsection \<open>The two correlation paths\<close>

text \<open>
  Claim C9. In every reachable state no key is both in the certified-response cache and
  among the delegated-request markers.
\<close>

theorem correlation_paths_exclusive:
  "reachable s \<Longrightarrow> dom (readStateResponses s) \<inter> delegatedRequestIds s = {}"
  using reachable_single_path [of s]
  by (auto simp: single_path_def delegated_mode_def signer_mode_def)

theorem correlation_paths_exclusive_witness:
  "reachable example_marked_state \<and>
   delegatedRequestIds example_marked_state = {''T''} \<and>
   dom (readStateResponses example_marked_state) \<inter> delegatedRequestIds example_marked_state = {}"
proof -
  have r: "reachable example_marked_state"
    unfolding example_marked_state_def example_delegation_state_def
    by (intro reachable.after_call reachable.init)
  from correlation_paths_exclusive [OF r] r show ?thesis
    by (simp add: example_marked_state_eq)
qed

subsection \<open>The storage capability\<close>

text \<open>
  Claim C10. The claim is that a storage supplied in the options is the one read and
  written. The constructor does not read \<open>options.storage\<close>: with the storage
  \<open>Storage_given 1\<close> supplied, the base identity and the delegation chain of the first
  delegated call are read from and written to the default storage, and the supplied one
  stays empty.
\<close>

theorem supplied_storage_is_ignored:
  "storage (options example_marked_state) = Some (Storage_given 1) \<and>
   this_storage example_marked_state = IdbStorage_new \<and>
   stores example_marked_state (Storage_given 1) = Map.empty \<and>
   stores example_marked_state IdbStorage_new =
     [''delegation-identity-j'' \<mapsto> KeyPairValue 0,
      ''delegation-chain-j-A'' \<mapsto> StringValue ''chain''] \<and>
   filter (\<lambda>ev. case ev of Storage_get st k \<Rightarrow> True | Storage_set st k v \<Rightarrow> True | _ \<Rightarrow> False)
     (trace example_marked_state) =
     [Storage_get IdbStorage_new ''delegation-identity-j'',
      Storage_set IdbStorage_new ''delegation-identity-j'' (KeyPairValue 0),
      Storage_get IdbStorage_new ''delegation-chain-j-A'',
      Storage_set IdbStorage_new ''delegation-chain-j-A'' (StringValue ''chain'')]"
  by (simp add: example_marked_state_eq example_delegation_options_def)

end
